theory Spec2Isabelle
  imports Complex_Main "HOL-Library.Sublist" "HOL-Library.Multiset"
begin

section \<open>Python strings\<close>

text \<open>
  Strings are modelled as \<^typ>\<open>string\<close> over the ASCII range: case folding, word
  characters and word boundaries are those of ASCII text.  Slices \<open>s[:n]\<close> are
  \<^const>\<open>take\<close>, concatenation is \<open>@\<close>.
\<close>

definition lower_char :: "char \<Rightarrow> char" where
  "lower_char c =
     (case map_of (zip ''ABCDEFGHIJKLMNOPQRSTUVWXYZ'' ''abcdefghijklmnopqrstuvwxyz'') c of
        None \<Rightarrow> c
      | Some d \<Rightarrow> d)"

definition lower :: "string \<Rightarrow> string" where
  \<comment> \<open>\<open>s.lower()\<close>\<close>
  "lower s = map lower_char s"

definition startswith :: "string \<Rightarrow> string \<Rightarrow> bool" where
  \<comment> \<open>\<open>s.startswith(sub)\<close>\<close>
  "startswith s sub = (take (length sub) s = sub)"

fun str_in :: "string \<Rightarrow> string \<Rightarrow> bool" where
  \<comment> \<open>\<open>sub in s\<close>: \<open>sub\<close> occurs in \<open>s\<close> as a contiguous substring\<close>
  "str_in sub [] = (sub = [])"
| "str_in sub (c # cs) = (startswith (c # cs) sub \<or> str_in sub cs)"

fun count_from :: "nat \<Rightarrow> string \<Rightarrow> string \<Rightarrow> nat" where
  \<comment> \<open>left-to-right scan for non-overlapping occurrences of a non-empty \<open>sub\<close>;
      the first argument is the number of characters still covered by the last match\<close>
  "count_from k sub [] = 0"
| "count_from k sub (c # cs) =
     (if 0 < k then count_from (k - 1) sub cs
      else if startswith (c # cs) sub then 1 + count_from (length sub - 1) sub cs
      else count_from 0 sub cs)"

definition str_count :: "string \<Rightarrow> string \<Rightarrow> nat" where
  \<comment> \<open>\<open>s.count(sub)\<close>; Python counts \<open>len(s) + 1\<close> occurrences of the empty string\<close>
  "str_count s sub = (if sub = [] then length s + 1 else count_from 0 sub s)"

fun split_from :: "nat \<Rightarrow> string \<Rightarrow> string \<Rightarrow> string \<Rightarrow> string list" where
  \<comment> \<open>the scan of \<open>s.split(sep)\<close> for a non-empty \<open>sep\<close>; \<open>cur\<close> is the piece being read\<close>
  "split_from k sep cur [] = [cur]"
| "split_from k sep cur (c # cs) =
     (if 0 < k then split_from (k - 1) sep cur cs
      else if startswith (c # cs) sep then cur # split_from (length sep - 1) sep [] cs
      else split_from 0 sep (cur @ [c]) cs)"

definition split :: "string \<Rightarrow> string \<Rightarrow> string list" where
  \<comment> \<open>\<open>s.split(sep)\<close>, \<open>sep\<close> a non-empty literal\<close>
  "split s sep = split_from 0 sep [] s"

fun show_nat :: "nat \<Rightarrow> string" where
  "show_nat n =
     (if n < 10 then [''0123456789'' ! n]
      else show_nat (n div 10) @ [''0123456789'' ! (n mod 10)])"

definition show_int :: "int \<Rightarrow> string" where
  \<comment> \<open>\<open>str(i)\<close>, as an f-string renders an integer\<close>
  "show_int i = (if i < 0 then CHR ''-'' # show_nat (nat (- i)) else show_nat (nat i))"

section \<open>Regular expressions of the form \<open>\bWORDS\b\<close>\<close>

text \<open>
  Every pattern of the detectors is a literal phrase between two word boundaries, searched
  with \<open>re.IGNORECASE\<close>.  \<open>WordBounded w\<close> stands for the pattern \<open>\bw\b\<close>.
\<close>

datatype regex = WordBounded string

fun regex_source :: "regex \<Rightarrow> string" where
  \<comment> \<open>the pattern as the raw string literal spells it\<close>
  "regex_source (WordBounded w) = [CHR 0x5C, CHR ''b''] @ w @ [CHR 0x5C, CHR ''b'']"

definition is_word_char :: "char \<Rightarrow> bool" where
  \<comment> \<open>\<open>\w\<close>\<close>
  "is_word_char c \<longleftrightarrow>
     c \<in> set ''abcdefghijklmnopqrstuvwxyzABCDEFGHIJKLMNOPQRSTUVWXYZ0123456789_''"

fun is_word :: "char option \<Rightarrow> bool" where
  "is_word None = False"
| "is_word (Some c) = is_word_char c"

definition boundary :: "char option \<Rightarrow> char option \<Rightarrow> bool" where
  \<comment> \<open>\<open>\b\<close> between two neighbouring positions; \<open>None\<close> is the start or end of the text\<close>
  "boundary l r \<longleftrightarrow> is_word l \<noteq> is_word r"

fun first_char :: "string \<Rightarrow> char option" where
  "first_char [] = None"
| "first_char (c # cs) = Some c"

definition match_here :: "char option \<Rightarrow> string \<Rightarrow> string \<Rightarrow> bool" where
  \<comment> \<open>\<open>\bw\b\<close> matches at the head of \<open>s\<close>; \<open>prev\<close> is the character before it\<close>
  "match_here prev w s \<longleftrightarrow>
     startswith (lower s) (lower w) \<and>
     boundary prev (first_char s) \<and>
     boundary (if w = [] then prev else Some (last w)) (first_char (drop (length w) s))"

fun search_from :: "char option \<Rightarrow> string \<Rightarrow> string \<Rightarrow> bool" where
  "search_from prev w [] = match_here prev w []"
| "search_from prev w (c # cs) = (match_here prev w (c # cs) \<or> search_from (Some c) w cs)"

fun re_search :: "regex \<Rightarrow> string \<Rightarrow> bool" where
  \<comment> \<open>\<open>re.search(pattern, text, re.IGNORECASE)\<close> is not \<open>None\<close>\<close>
  "re_search (WordBounded w) text = search_from None w text"

fun finditer_from :: "nat \<Rightarrow> nat \<Rightarrow> char option \<Rightarrow> string \<Rightarrow> string \<Rightarrow> (nat \<times> nat) list" where
  \<comment> \<open>spans of the non-overlapping matches, left to right; arguments: position, characters
      still covered by the last match, previous character, phrase, rest of the text\<close>
  "finditer_from pos k prev w [] = []"
| "finditer_from pos k prev w (c # cs) =
     (if 0 < k then finditer_from (pos + 1) (k - 1) (Some c) w cs
      else if match_here prev w (c # cs)
        then (pos, pos + length w) # finditer_from (pos + 1) (length w - 1) (Some c) w cs
      else finditer_from (pos + 1) 0 (Some c) w cs)"

fun re_finditer :: "regex \<Rightarrow> string \<Rightarrow> (nat \<times> nat) list" where
  \<comment> \<open>\<open>re.finditer(pattern, text, re.IGNORECASE)\<close> for a non-empty phrase\<close>
  "re_finditer (WordBounded w) text = finditer_from 0 0 None w text"

section \<open>Data model\<close>

text \<open>
  Python dictionaries that are used as structs become records; a key that some producers
  leave out is an \<open>option\<close> field, and \<open>d.get(k, default)\<close> on it is \<open>get_or\<close>.
  Dictionaries read from the knowledge-base file are association lists in file order.
\<close>

fun get_or :: "'a option \<Rightarrow> 'a \<Rightarrow> 'a" where
  "get_or None d = d"
| "get_or (Some x) d = x"

definition dict_get :: "(string \<times> 'a) list \<Rightarrow> string \<Rightarrow> 'a \<Rightarrow> 'a" where
  \<comment> \<open>\<open>d.get(key, default)\<close>\<close>
  "dict_get d key dflt = get_or (map_of d key) dflt"

datatype jval = JStr string | JInt int | JBool bool | JStrs "string list"

type_synonym jdict = "(string \<times> jval) list"

type_synonym section_data = "(string \<times> string) list"

record pii =
  entity_type :: string
  pii_text :: string
  pii_start :: nat
  pii_end :: nat
  confidence :: rat
  is_sensitive :: bool
  sensitive :: "bool option"  \<comment> \<open>key \<open>"sensitive"\<close>, which the detector never sets\<close>

record pii_categorized =
  regular_pii :: "pii list"
  sensitive_pii :: "pii list"
  total_pii_count :: int
  sensitive_count :: int
  regular_count :: int

record indicator =
  ind_text :: string
  ind_start :: nat
  ind_end :: nat
  ind_pattern :: string

record violation =
  \<comment> \<open>a violation as the rule-based checker builds it\<close>
  v_section :: string
  violation_type :: string
  v_title :: string
  v_description :: string
  severity :: string
  details :: string
  affected_data :: "string list"
  dpa_reference :: string

record recommendation =
  priority :: string
  action :: string
  rec_description :: string
  section_reference :: string
  implementation :: "string option"  \<comment> \<open>merged entries only\<close>
  rec_source :: "string option"  \<comment> \<open>merged entries only\<close>

record report =
  \<comment> \<open>the report of \<open>_traditional_analysis\<close>\<close>
  document_name :: string
  analysis_date :: string
  pii_summary :: pii_categorized
  consent_indicators :: "indicator list"
  purpose_indicators :: "indicator list"
  violations :: "violation list"
  compliance_status :: string
  risk_level :: string
  recommendations :: "recommendation list"
  analysis_type :: string

record kb_violation =
  \<comment> \<open>a violation of the knowledge-base baseline or one merged from the model's answer\<close>
  kv_section :: string
  kv_title :: string
  kv_violation :: string  \<comment> \<open>key \<open>"violation"\<close>\<close>
  kv_severity :: string
  kv_description :: string
  kv_dpa_reference :: "string option"  \<comment> \<open>baseline entries only\<close>
  kv_details :: "string option"  \<comment> \<open>merged entries only\<close>
  kv_confidence :: "rat option"  \<comment> \<open>merged entries only\<close>
  kv_source :: "string option"  \<comment> \<open>merged entries only\<close>

datatype risk_value =
    RiskList  \<comment> \<open>the \<open>[]\<close> that \<open>_parse_ai_response\<close> stores for a missing key\<close>
  | RiskDict (overall_risk: "string option") (risk_factors: "string list option")
      (mitigation_priority: "string option")

record enhanced_report =
  \<comment> \<open>the report of the knowledge-base baseline and of the paths built on it\<close>
  e_compliance_status :: string  \<comment> \<open>key \<open>"compliance_status"\<close>\<close>
  e_risk_level :: string  \<comment> \<open>key \<open>"risk_level"\<close>\<close>
  e_violations :: "kb_violation list"  \<comment> \<open>key \<open>"violations"\<close>\<close>
  e_recommendations :: "recommendation list"  \<comment> \<open>key \<open>"recommendations"\<close>\<close>
  e_analysis_metadata :: jdict
  e_document_name :: "string option"
  e_analysis_date :: "string option"
  e_pii_summary :: "pii_categorized option"
  e_consent_indicators :: "indicator list option"
  e_purpose_indicators :: "indicator list option"
  ai_risk_level :: "string option"
  ai_insights :: "jdict option"
  ai_risk_assessment :: "risk_value option"
  extracted_text :: "string option"

datatype error =
    JSONDecodeError string | ValueError string | AttributeError string | KeyError string
  | ExternalFailure string
  \<comment> \<open>an exception, with its message\<close>

fun str_of_error :: "error \<Rightarrow> string" where
  \<comment> \<open>\<open>str(e)\<close>\<close>
  "str_of_error (JSONDecodeError msg) = msg"
| "str_of_error (ValueError msg) = msg"
| "str_of_error (AttributeError msg) = msg"
| "str_of_error (KeyError msg) = msg"
| "str_of_error (ExternalFailure msg) = msg"

section \<open>Knowledge base (\<open>enhanced_dpa_knowledge_v2.py\<close>)\<close>

datatype index_entry =
    SectionEntry string string  \<comment> \<open>\<open>{"type": "section", "section": n, "title": t}\<close>\<close>
  | DefinitionEntry string string  \<comment> \<open>\<open>{"type": "definition", "term": t, "definition": d}\<close>\<close>

datatype search_result =
    IndexHit index_entry
  | ContentHit string string int
      \<comment> \<open>\<open>{"type": "section_content", "section": n, "title": t, "relevance": r}\<close>\<close>

record knowledge_base =
  sections :: "(string \<times> section_data) list"
  definitions :: "(string \<times> section_data) list"
  penalties :: "(string \<times> jdict) list"
  rights :: "(string \<times> section_data) list"
  npc_functions :: "(string \<times> section_data) list"
  principles :: "(string \<times> section_data) list"
  compliance_rules :: "(string \<times> jdict) list"
  search_index :: "(string \<times> index_entry list) list"

text \<open>
  The backing file \<open>data/output/enhanced_dpa_knowledge_v2.json\<close> is missing, is not JSON
  (with the decoder's message), or holds a document; a top-level key that the document
  lacks reads as \<open>{}\<close>.
\<close>

datatype kb_file = Absent | Corrupt string | Parsed knowledge_base

definition empty_kb :: knowledge_base where
  \<comment> \<open>the fields as \<open>__init__\<close> sets them before loading\<close>
  "empty_kb = \<lparr>sections = [], definitions = [], penalties = [], rights = [],
     npc_functions = [], principles = [], compliance_rules = [], search_index = []\<rparr>"

fun load_knowledge_base :: "kb_file \<Rightarrow> error + knowledge_base" where
  "load_knowledge_base Absent = Inr empty_kb"
| "load_knowledge_base (Corrupt msg) = Inl (JSONDecodeError msg)"
| "load_knowledge_base (Parsed kb) = Inr kb"

definition get_section :: "knowledge_base \<Rightarrow> string \<Rightarrow> section_data" where
  "get_section kb section_number = dict_get (sections kb) section_number []"

fun find_definition :: "string \<Rightarrow> (string \<times> section_data) list \<Rightarrow> section_data option" where
  "find_definition term_lower [] = None"
| "find_definition term_lower ((key, definition) # rest) =
     (if str_in term_lower key \<or> str_in key term_lower then Some definition
      else find_definition term_lower rest)"

definition get_definition :: "knowledge_base \<Rightarrow> string \<Rightarrow> section_data option" where
  "get_definition kb term = find_definition (lower term) (definitions kb)"

definition get_penalty_info :: "knowledge_base \<Rightarrow> string \<Rightarrow> jdict" where
  "get_penalty_info kb section_number = dict_get (penalties kb) section_number []"

definition slice_to :: "int \<Rightarrow> 'a list \<Rightarrow> 'a list" where
  \<comment> \<open>\<open>xs[:n]\<close>; a negative \<open>n\<close> counts from the end\<close>
  "slice_to n xs = (if 0 \<le> n then take (nat n) xs else take (length xs - nat (- n)) xs)"

fun relevance :: "search_result \<Rightarrow> int" where
  \<comment> \<open>\<open>x.get("relevance", 1)\<close>\<close>
  "relevance (IndexHit e) = 1"
| "relevance (ContentHit n t r) = r"

definition sort_by_relevance :: "search_result list \<Rightarrow> search_result list" where
  \<comment> \<open>\<open>results.sort(key=..., reverse=True)\<close>: stable, largest key first\<close>
  "sort_by_relevance rs = sort_key (\<lambda>x. - relevance x) rs"

fun section_hits :: "string \<Rightarrow> (string \<times> section_data) list \<Rightarrow> search_result list" where
  "section_hits keyword_lower [] = []"
| "section_hits keyword_lower ((section_num, section_data) # rest) =
     (if str_in keyword_lower (lower (dict_get section_data ''content'' []))
      then ContentHit section_num (dict_get section_data ''title'' [])
             (int (str_count (lower (dict_get section_data ''content'' [])) keyword_lower))
           # section_hits keyword_lower rest
      else section_hits keyword_lower rest)"

definition search_content :: "knowledge_base \<Rightarrow> string \<Rightarrow> int \<Rightarrow> search_result list" where
  "search_content kb keyword limit =
     (let keyword_lower = lower keyword;
          results = (case map_of (search_index kb) keyword_lower of
                       None \<Rightarrow> []
                     | Some entries \<Rightarrow> slice_to limit (map IndexHit entries));
          results = (if int (length results) < limit
                     then results @ section_hits keyword_lower (sections kb)
                     else results)
      in slice_to limit (sort_by_relevance results))"

section \<open>Legacy knowledge base (\<open>enhanced_dpa_knowledge.py\<close>)\<close>

record section_match =
  sm_section :: string
  sm_title :: string
  sm_relevance :: int

fun matching_sections :: "string \<Rightarrow> (string \<times> section_data) list \<Rightarrow> section_match list" where
  "matching_sections keyword [] = []"
| "matching_sections keyword ((section_num, section_data) # rest) =
     (let content = lower (dict_get section_data ''content'' []);
          title = lower (dict_get section_data ''title'' [])
      in if str_in (lower keyword) content \<or> str_in (lower keyword) title
         then \<lparr>sm_section = section_num, sm_title = dict_get section_data ''title'' [],
               sm_relevance = int (str_count content (lower keyword))
                              + int (str_count title (lower keyword)) * 2\<rparr>
              # matching_sections keyword rest
         else matching_sections keyword rest)"

definition search_sections :: "(string \<times> section_data) list \<Rightarrow> string \<Rightarrow> section_match list" where
  \<comment> \<open>the first argument is \<open>self.sections\<close>\<close>
  "search_sections secs keyword =
     sort_key (\<lambda>x. - sm_relevance x) (matching_sections keyword secs)"

section \<open>Signal extraction (\<open>pii_detector.py\<close>)\<close>

text \<open>
  \<open>detect_pii\<close> wraps an external entity recogniser; its result, the list of detected
  items, is an input of the model.
\<close>

definition categorize_pii :: "pii list \<Rightarrow> pii_categorized" where
  "categorize_pii pii_results =
     (let sens = (\<lambda>p. is_sensitive p \<or>
                    entity_type p \<in> set [''HEALTH_INFO'', ''RELIGIOUS_INFO'', ''FINANCIAL_INFO'',
                                         ''PH_TIN'', ''PH_SSS'', ''PH_PHILHEALTH'']);
          regular = filter (\<lambda>p. \<not> sens p) pii_results;
          sensitive = filter sens pii_results
      in \<lparr>regular_pii = regular, sensitive_pii = sensitive,
          total_pii_count = int (length pii_results),
          sensitive_count = int (length sensitive),
          regular_count = int (length regular)\<rparr>)"

definition indicators_of :: "regex \<Rightarrow> string \<Rightarrow> indicator list" where
  \<comment> \<open>one record per match of one pattern\<close>
  "indicators_of pattern text =
     map (\<lambda>(s, e). \<lparr>ind_text = take (e - s) (drop s text), ind_start = s, ind_end = e,
                     ind_pattern = regex_source pattern\<rparr>)
         (re_finditer pattern text)"

definition consent_patterns :: "regex list" where
  "consent_patterns = map WordBounded
     [''consent'', ''agree'', ''authorize'', ''permit'', ''allow'', ''approve'', ''accept'',
      ''payag'', ''sang-ayon'', ''pahintulot'']"

definition detect_consent_indicators :: "string \<Rightarrow> indicator list" where
  "detect_consent_indicators text = concat (map (\<lambda>p. indicators_of p text) consent_patterns)"

definition purpose_patterns :: "regex list" where
  "purpose_patterns = map WordBounded
     [''purpose'', ''intended for'', ''used for'', ''processed for'', ''layunin'', ''gagamitin'']"

definition detect_purpose_statements :: "string \<Rightarrow> indicator list" where
  "detect_purpose_statements text = concat (map (\<lambda>p. indicators_of p text) purpose_patterns)"

section \<open>Rule-based checker (\<open>dpa_compliance_checker.py\<close>)\<close>

definition get_section_summary :: "section_data \<Rightarrow> string" where
  \<comment> \<open>\<open>_get_section_summary\<close>\<close>
  "get_section_summary section_data =
     (if section_data = [] then ''Section content not available''
      else let content = dict_get section_data ''content'' [];
               sentences = split content ''. ''
           in case sentences of
                s # rest \<Rightarrow> take 100 s @ ''...''
              | [] \<Rightarrow> take 100 content @ ''...'')"

definition unencrypted_patterns :: "regex list" where
  "unencrypted_patterns = map WordBounded
     [''unencrypted'', ''plain text'', ''no encryption'', ''unsecured'', ''no password'',
      ''no security'']"

definition security_violation :: "regex \<Rightarrow> section_data \<Rightarrow> violation" where
  \<comment> \<open>the record appended for the pattern that matched\<close>
  "security_violation pattern section_20_data =
     \<lparr>v_section = ''Section 20'',
      violation_type = ''inadequate_security'',
      v_title = dict_get section_20_data ''title'' ''Security of Personal Information'',
      v_description =
        ''Inadequate security measures for personal information as required by Section 20'',
      severity = ''HIGH'',
      details = ''Security concern detected: '' @ regex_source pattern
                @ ''. Section 20 requires: '' @ get_section_summary section_20_data,
      affected_data = [],
      dpa_reference = take 200 (dict_get section_20_data ''content'' []) @ ''...''\<rparr>"

fun security_scan :: "regex list \<Rightarrow> string \<Rightarrow> section_data \<Rightarrow> violation list" where
  \<comment> \<open>the \<open>for\<close> loop over the patterns, left at the first match by \<open>break\<close>\<close>
  "security_scan [] text section_20_data = []"
| "security_scan (pattern # rest) text section_20_data =
     (if re_search pattern text then [security_violation pattern section_20_data]
      else security_scan rest text section_20_data)"

definition check_security_violations :: "string \<Rightarrow> section_data \<Rightarrow> violation list" where
  \<comment> \<open>\<open>_check_security_violations\<close>\<close>
  "check_security_violations text section_20_data =
     security_scan unencrypted_patterns text section_20_data"

definition unauthorized_processing :: "section_data \<Rightarrow> pii_categorized \<Rightarrow> violation" where
  "unauthorized_processing section_12 pii_categorized =
     \<lparr>v_section = ''Section 12'',
      violation_type = ''unauthorized_processing'',
      v_title = dict_get section_12 ''title''
                  ''Criteria for Lawful Processing of Personal Information'',
      v_description = ''Personal information detected without evidence of consent or other ''
                      @ ''lawful basis as required by Section 12'',
      severity = ''HIGH'',
      details = ''Found '' @ show_int (total_pii_count pii_categorized)
                @ '' PII instances without consent indicators. Section 12 requires: ''
                @ get_section_summary section_12,
      affected_data = map pii_text (take 5 (regular_pii pii_categorized)),
      dpa_reference = take 200 (dict_get section_12 ''content'' []) @ ''...''\<rparr>"

definition inadequate_spi_protection :: "section_data \<Rightarrow> pii_categorized \<Rightarrow> violation" where
  "inadequate_spi_protection section_13 pii_categorized =
     \<lparr>v_section = ''Section 13'',
      violation_type = ''inadequate_spi_protection'',
      v_title = dict_get section_13 ''title''
                  ''Sensitive Personal Information and Privileged Information'',
      v_description = ''Sensitive personal information detected without adequate protection ''
                      @ ''measures as required by Section 13'',
      severity = ''CRITICAL'',
      details = ''Found '' @ show_int (sensitive_count pii_categorized)
                @ '' sensitive PII instances. Section 13 states: ''
                @ get_section_summary section_13,
      affected_data = map pii_text (take 5 (sensitive_pii pii_categorized)),
      dpa_reference = take 200 (dict_get section_13 ''content'' []) @ ''...''\<rparr>"

definition lack_of_transparency :: "section_data \<Rightarrow> violation" where
  "lack_of_transparency section_11 =
     \<lparr>v_section = ''Section 11'',
      violation_type = ''lack_of_transparency'',
      v_title = dict_get section_11 ''title'' ''General Data Privacy Principles'',
      v_description = ''Personal information processing without clear purpose statement ''
                      @ ''violates transparency principle'',
      severity = ''MEDIUM'',
      details = ''No purpose statement found for data processing. Section 11 requires: ''
                @ get_section_summary section_11,
      affected_data = [],
      dpa_reference = take 200 (dict_get section_11 ''content'' []) @ ''...''\<rparr>"

definition excessive_processing :: "section_data \<Rightarrow> pii_categorized \<Rightarrow> violation" where
  "excessive_processing section_11 pii_categorized =
     \<lparr>v_section = ''Section 11'',
      violation_type = ''excessive_processing'',
      v_title = dict_get section_11 ''title'' ''General Data Privacy Principles'',
      v_description = ''Potentially excessive personal information processing violates ''
                      @ ''proportionality principle'',
      severity = ''MEDIUM'',
      details = ''Large amount of PII detected ('' @ show_int (total_pii_count pii_categorized)
                @ '' instances) may violate proportionality requirements'',
      affected_data = [],
      dpa_reference = take 200 (dict_get section_11 ''content'' []) @ ''...''\<rparr>"

definition check_violations ::
  "knowledge_base \<Rightarrow> string \<Rightarrow> pii_categorized \<Rightarrow> indicator list \<Rightarrow> indicator list
     \<Rightarrow> violation list" where
  \<comment> \<open>\<open>_check_violations\<close>; each \<open>if\<close> appends its record or nothing\<close>
  "check_violations kb text pii_categorized consent purpose =
     (let section_12 = get_section kb ''12'';
          section_13 = get_section kb ''13'';
          section_11 = get_section kb ''11'';
          section_20 = get_section kb ''20''
      in (if 0 < total_pii_count pii_categorized \<and> consent = []
          then [unauthorized_processing section_12 pii_categorized] else [])
       @ (if 0 < sensitive_count pii_categorized
          then [inadequate_spi_protection section_13 pii_categorized] else [])
       @ (if 0 < total_pii_count pii_categorized \<and> purpose = []
          then [lack_of_transparency section_11] else [])
       @ (if 10 < total_pii_count pii_categorized
          then [excessive_processing section_11 pii_categorized] else [])
       @ check_security_violations text section_20)"

definition assess_risk_level :: "violation list \<Rightarrow> pii_categorized \<Rightarrow> string" where
  \<comment> \<open>\<open>_assess_risk_level\<close>\<close>
  "assess_risk_level vs pii_categorized =
     (if vs = [] then ''LOW''
      else let critical_count = length (filter (\<lambda>v. severity v = ''CRITICAL'') vs);
               high_count = length (filter (\<lambda>v. severity v = ''HIGH'') vs)
           in if 0 < critical_count \<or> 5 < sensitive_count pii_categorized then ''CRITICAL''
              else if 0 < high_count \<or> 10 < total_pii_count pii_categorized then ''HIGH''
              else ''MEDIUM'')"

definition privacy_impact_assessment :: recommendation where
  "privacy_impact_assessment =
     \<lparr>priority = ''LOW'', action = ''Conduct privacy impact assessment'',
      rec_description = ''Perform a comprehensive privacy impact assessment for this document'',
      section_reference = ''General DPA Compliance'',
      implementation = None, rec_source = None\<rparr>"

definition generate_recommendations :: "violation list \<Rightarrow> pii_categorized \<Rightarrow> recommendation list" where
  \<comment> \<open>\<open>_generate_recommendations\<close>\<close>
  "generate_recommendations vs pii_categorized =
     (let violation_types = map violation_type vs
      in (if ''unauthorized_processing'' \<in> set violation_types
          then [\<lparr>priority = ''HIGH'', action = ''Obtain proper consent'',
                  rec_description =
                    ''Implement consent mechanisms before processing personal information'',
                  section_reference = ''Section 12'',
                  implementation = None, rec_source = None\<rparr>] else [])
       @ (if ''inadequate_spi_protection'' \<in> set violation_types
          then [\<lparr>priority = ''CRITICAL'', action = ''Enhance SPI protection'',
                  rec_description = ''Implement additional security measures for sensitive ''
                                    @ ''personal information'',
                  section_reference = ''Section 13, Section 20'',
                  implementation = None, rec_source = None\<rparr>] else [])
       @ (if ''lack_of_transparency'' \<in> set violation_types
          then [\<lparr>priority = ''MEDIUM'', action = ''Add purpose statements'',
                  rec_description =
                    ''Clearly state the purpose for processing personal information'',
                  section_reference = ''Section 11'',
                  implementation = None, rec_source = None\<rparr>] else [])
       @ (if ''excessive_processing'' \<in> set violation_types
          then [\<lparr>priority = ''MEDIUM'', action = ''Review data minimization'',
                  rec_description = ''Ensure only necessary personal information is processed'',
                  section_reference = ''Section 11'',
                  implementation = None, rec_source = None\<rparr>] else [])
       @ (if ''inadequate_security'' \<in> set violation_types
          then [\<lparr>priority = ''HIGH'', action = ''Implement security measures'',
                  rec_description =
                    ''Deploy appropriate technical and organizational security measures'',
                  section_reference = ''Section 20'',
                  implementation = None, rec_source = None\<rparr>] else [])
       @ (if 0 < total_pii_count pii_categorized then [privacy_impact_assessment] else []))"

definition traditional_analysis ::
  "knowledge_base \<Rightarrow> string \<Rightarrow> string \<Rightarrow> string \<Rightarrow> pii_categorized \<Rightarrow> indicator list
     \<Rightarrow> indicator list \<Rightarrow> report" where
  \<comment> \<open>\<open>_traditional_analysis\<close>; \<open>now\<close> is the clock reading \<open>datetime.now().isoformat()\<close>\<close>
  "traditional_analysis kb now text doc_name pii_categorized consent purpose =
     (let vs = check_violations kb text pii_categorized consent purpose
      in \<lparr>document_name = doc_name,
          analysis_date = now,
          pii_summary = pii_categorized,
          consent_indicators = consent,
          purpose_indicators = purpose,
          violations = vs,
          compliance_status = (if vs = [] then ''COMPLIANT'' else ''NON-COMPLIANT''),
          risk_level = assess_risk_level vs pii_categorized,
          recommendations = generate_recommendations vs pii_categorized,
          analysis_type = ''traditional''\<rparr>)"

section \<open>Knowledge-base baseline analysis (\<open>enhanced_dpa_knowledge_v2.py\<close>)\<close>

definition any_keyword :: "string list \<Rightarrow> string \<Rightarrow> bool" where
  \<comment> \<open>\<open>any(keyword in text for keyword in keywords)\<close>\<close>
  "any_keyword keywords text = list_ex (\<lambda>keyword. str_in keyword text) keywords"

definition has_consent_indicators :: "string \<Rightarrow> bool" where
  "has_consent_indicators text = any_keyword
     [''consent'', ''agree'', ''permission'', ''authorize'', ''approval'', ''opt-in'',
      ''accept'', ''acknowledge'', ''voluntary''] text"

definition has_explicit_consent :: "string \<Rightarrow> bool" where
  "has_explicit_consent text = any_keyword
     [''explicit consent'', ''specific consent'', ''express consent'', ''written consent'',
      ''informed consent'', ''clear consent''] text"

definition has_transparency_indicators :: "string \<Rightarrow> bool" where
  "has_transparency_indicators text = any_keyword
     [''purpose'', ''notification'', ''inform'', ''disclose'', ''explain'', ''privacy policy'',
      ''data use'', ''processing purpose''] text"

definition has_security_measures :: "string \<Rightarrow> bool" where
  "has_security_measures text = any_keyword
     [''security'', ''encryption'', ''protection'', ''safeguard'', ''secure'', ''confidential'',
      ''access control'', ''authentication'', ''firewall''] text"

definition kb_violation_of ::
  "knowledge_base \<Rightarrow> string \<Rightarrow> string \<Rightarrow> string \<Rightarrow> string \<Rightarrow> string \<Rightarrow> kb_violation" where
  \<comment> \<open>the dictionary literal shared by the four rules of \<open>check_violation\<close>\<close>
  "kb_violation_of kb sec ttl viol sev descr =
     \<lparr>kv_section = sec, kv_title = ttl, kv_violation = viol, kv_severity = sev,
      kv_description = descr,
      kv_dpa_reference = Some (take 200 (dict_get (get_section kb sec) ''content'' []) @ ''...''),
      kv_details = None, kv_confidence = None, kv_source = None\<rparr>"

definition check_violation :: "knowledge_base \<Rightarrow> string \<Rightarrow> pii list \<Rightarrow> kb_violation list" where
  "check_violation kb text pii_data =
     (let text_lower = lower text;
          sensitive_pii = filter (\<lambda>item. get_or (sensitive item) False) pii_data
      in (if pii_data \<noteq> [] \<and> \<not> has_consent_indicators text_lower
          then [kb_violation_of kb ''12''
                  ''Criteria for Lawful Processing of Personal Information''
                  ''Processing without consent'' ''HIGH''
                  (''Personal information appears to be processed without clear consent ''
                   @ ''from data subjects'')] else [])
       @ (if sensitive_pii \<noteq> [] \<and> \<not> has_explicit_consent text_lower
          then [kb_violation_of kb ''13''
                  ''Sensitive Personal Information and Privileged Information''
                  ''Processing sensitive information without explicit consent'' ''CRITICAL''
                  (''Sensitive personal information detected without explicit consent ''
                   @ ''provisions'')] else [])
       @ (if pii_data \<noteq> [] \<and> \<not> has_transparency_indicators text_lower
          then [kb_violation_of kb ''16'' ''Rights of the Data Subject''
                  ''Lack of transparency in data processing'' ''MEDIUM''
                  (''Data subjects may not be adequately informed about data ''
                   @ ''processing'')] else [])
       @ (if \<not> has_security_measures text_lower
          then [kb_violation_of kb ''20'' ''Security of Personal Information''
                  ''Inadequate security measures'' ''HIGH''
                  (''Document does not demonstrate adequate security measures for ''
                   @ ''personal information'')] else []))"

definition kb_generate_recommendations :: "kb_violation list \<Rightarrow> pii list \<Rightarrow> recommendation list" where
  \<comment> \<open>\<open>EnhancedDPAKnowledgeV2.generate_recommendations\<close>\<close>
  "kb_generate_recommendations vs pii_data =
     (let violation_sections = map kv_section vs
      in (if ''12'' \<in> set violation_sections \<or> ''13'' \<in> set violation_sections
          then [\<lparr>priority = ''CRITICAL'', action = ''Implement proper consent mechanisms'',
                  rec_description = ''Establish clear, specific, and informed consent procedures ''
                                    @ ''before collecting personal information'',
                  section_reference = ''Section 12 - Criteria for Lawful Processing'',
                  implementation = None, rec_source = None\<rparr>] else [])
       @ (if ''16'' \<in> set violation_sections
          then [\<lparr>priority = ''HIGH'',
                  action = ''Enhance transparency and data subject notifications'',
                  rec_description = ''Provide clear information about data processing purposes, ''
                                    @ ''methods, and data subject rights'',
                  section_reference = ''Section 16 - Rights of the Data Subject'',
                  implementation = None, rec_source = None\<rparr>] else [])
       @ (if ''20'' \<in> set violation_sections
          then [\<lparr>priority = ''HIGH'', action = ''Implement comprehensive security measures'',
                  rec_description = ''Deploy organizational, physical, and technical safeguards ''
                                    @ ''to protect personal information'',
                  section_reference = ''Section 20 - Security of Personal Information'',
                  implementation = None, rec_source = None\<rparr>] else [])
       @ (if pii_data \<noteq> []
          then [\<lparr>priority = ''MEDIUM'', action = ''Conduct data protection impact assessment'',
                  rec_description = ''Evaluate the risks and implement appropriate measures for ''
                                    @ ''personal data processing'',
                  section_reference = ''Section 11 - General Data Privacy Principles'',
                  implementation = None, rec_source = None\<rparr>] else []))"

definition get_comprehensive_analysis ::
  "knowledge_base \<Rightarrow> string \<Rightarrow> string \<Rightarrow> pii list \<Rightarrow> enhanced_report" where
  \<comment> \<open>\<open>now\<close> is the clock reading \<open>datetime.now().isoformat()\<close>\<close>
  "get_comprehensive_analysis kb now text pii_data =
     (let vs = check_violation kb text pii_data;
          recs = kb_generate_recommendations vs pii_data;
          critical_violations = filter (\<lambda>v. kv_severity v = ''CRITICAL'') vs;
          high_violations = filter (\<lambda>v. kv_severity v = ''HIGH'') vs;
          risk = (if vs = [] then ''LOW''
                  else if critical_violations \<noteq> [] then ''CRITICAL''
                  else if 2 \<le> length high_violations then ''HIGH''
                  else if high_violations \<noteq> [] then ''MEDIUM''
                  else ''LOW'')
      in \<lparr>e_compliance_status = (if vs = [] then ''COMPLIANT'' else ''NON-COMPLIANT''),
          e_risk_level = risk,
          e_violations = vs,
          e_recommendations = recs,
          e_analysis_metadata =
            [(''knowledge_base_version'', JStr ''v2''),
             (''analysis_date'', JStr now),
             (''sections_analyzed'', JInt (int (length (sections kb)))),
             (''total_pii_found'', JInt (int (length pii_data)))],
          e_document_name = None, e_analysis_date = None, e_pii_summary = None,
          e_consent_indicators = None, e_purpose_indicators = None,
          ai_risk_level = None, ai_insights = None, ai_risk_assessment = None,
          extracted_text = None\<rparr>)"

section \<open>Reconciliation with the model's answer (\<open>mistral_analyzer.py\<close>)\<close>

text \<open>
  The answer of the external model is an input.  Its entries are dictionaries whose keys
  may all be missing; the values that are present are taken to have the types that the
  prompt asks for.
\<close>

record ai_violation =
  av_section :: "string option"
  av_violation_type :: "string option"
  av_severity :: "string option"
  av_description :: "string option"
  av_legal_basis :: "string option"
  av_confidence :: "rat option"

record ai_recommendation =
  ar_priority :: "string option"
  ar_action :: "string option"
  ar_description :: "string option"
  ar_section_reference :: "string option"
  ar_implementation :: "string option"

record ai_analysis =
  ai_violations :: "ai_violation list"  \<comment> \<open>\<open>.get("ai_violations", [])\<close>\<close>
  ai_recommendations :: "ai_recommendation list"  \<comment> \<open>\<open>.get("ai_recommendations", [])\<close>\<close>
  ai_risk :: "risk_value option"  \<comment> \<open>key \<open>"ai_risk_assessment"\<close>\<close>
  ai_insights_in :: "jdict option"  \<comment> \<open>key \<open>"ai_insights"\<close>\<close>
  ai_error :: "string option"  \<comment> \<open>key \<open>"error"\<close>\<close>

definition contains_either :: "string \<Rightarrow> string \<Rightarrow> bool" where
  \<comment> \<open>\<open>a in b or b in a\<close>\<close>
  "contains_either a b \<longleftrightarrow> str_in a b \<or> str_in b a"

fun duplicate_scan :: "string \<Rightarrow> string \<Rightarrow> kb_violation list \<Rightarrow> bool" where
  \<comment> \<open>the \<open>for\<close> loop of \<open>_is_duplicate_violation\<close>\<close>
  "duplicate_scan ai_section ai_type [] = False"
| "duplicate_scan ai_section ai_type (baseline # rest) =
     (let baseline_section = lower (kv_section baseline);
          baseline_type = lower (kv_violation baseline)
      in if contains_either ai_section baseline_section
            \<and> contains_either ai_type baseline_type
         then True
         else duplicate_scan ai_section ai_type rest)"

definition is_duplicate_violation :: "ai_violation \<Rightarrow> kb_violation list \<Rightarrow> bool" where
  "is_duplicate_violation a baseline_violations =
     duplicate_scan (lower (get_or (av_section a) [])) (lower (get_or (av_violation_type a) []))
       baseline_violations"

definition standard_violation :: "ai_violation \<Rightarrow> kb_violation" where
  "standard_violation a =
     \<lparr>kv_section = get_or (av_section a) ''AI-Detected'',
      kv_title = get_or (av_section a) ''AI-Detected Violation'',
      kv_violation = get_or (av_violation_type a) ''ai_detected'',
      kv_severity = get_or (av_severity a) ''MEDIUM'',
      kv_description = get_or (av_description a) [],
      kv_dpa_reference = None,
      kv_details = Some (get_or (av_legal_basis a) []),
      kv_confidence = Some (get_or (av_confidence a) (4 / 5)),
      kv_source = Some ''mistral_ai''\<rparr>"

fun recommendation_scan :: "string \<Rightarrow> recommendation list \<Rightarrow> bool" where
  "recommendation_scan ai_action [] = False"
| "recommendation_scan ai_action (baseline # rest) =
     (if contains_either ai_action (lower (action baseline)) then True
      else recommendation_scan ai_action rest)"

definition is_duplicate_recommendation :: "ai_recommendation \<Rightarrow> recommendation list \<Rightarrow> bool" where
  "is_duplicate_recommendation r baseline_recommendations =
     recommendation_scan (lower (get_or (ar_action r) [])) baseline_recommendations"

definition standard_rec :: "ai_recommendation \<Rightarrow> recommendation" where
  "standard_rec r =
     \<lparr>priority = get_or (ar_priority r) ''MEDIUM'',
      action = get_or (ar_action r) [],
      rec_description = get_or (ar_description r) [],
      section_reference = get_or (ar_section_reference r) ''AI Analysis'',
      implementation = Some (get_or (ar_implementation r) []),
      rec_source = Some ''mistral_ai''\<rparr>"

text \<open>
  List objects live in a store, addressed by numbers.  \<open>baseline_analysis.copy()\<close> copies
  the dictionary but not the lists it refers to, and \<open>combined.get("violations", [])\<close>
  returns the stored list object itself; the loops below therefore take two addresses, the
  list being appended to and the list being tested against.
\<close>

type_synonym 'a store = "nat \<Rightarrow> 'a list"

definition append_to :: "'a store \<Rightarrow> nat \<Rightarrow> 'a \<Rightarrow> 'a store" where
  \<comment> \<open>\<open>lst.append(x)\<close> on the list object at address \<open>a\<close>\<close>
  "append_to st a x = st(a := st a @ [x])"

fun add_ai_violations :: "nat \<Rightarrow> nat \<Rightarrow> ai_violation list \<Rightarrow> kb_violation store \<Rightarrow> kb_violation store" where
  "add_ai_violations combined_violations baseline_violations [] st = st"
| "add_ai_violations combined_violations baseline_violations (ai_violation # rest) st =
     (if \<not> is_duplicate_violation ai_violation (st baseline_violations)
      then add_ai_violations combined_violations baseline_violations rest
             (append_to st combined_violations (standard_violation ai_violation))
      else add_ai_violations combined_violations baseline_violations rest st)"

fun add_ai_recommendations ::
  "nat \<Rightarrow> nat \<Rightarrow> ai_recommendation list \<Rightarrow> recommendation store \<Rightarrow> recommendation store" where
  "add_ai_recommendations combined_recs baseline_recs [] st = st"
| "add_ai_recommendations combined_recs baseline_recs (ai_rec # rest) st =
     (if \<not> is_duplicate_recommendation ai_rec (st baseline_recs)
      then add_ai_recommendations combined_recs baseline_recs rest
             (append_to st combined_recs (standard_rec ai_rec))
      else add_ai_recommendations combined_recs baseline_recs rest st)"

definition risk_levels :: "string list" where
  "risk_levels = [''LOW'', ''MEDIUM'', ''HIGH'', ''CRITICAL'']"

fun index_of :: "'a list \<Rightarrow> 'a \<Rightarrow> nat option" where
  \<comment> \<open>\<open>xs.index(x)\<close>; \<open>None\<close> is the \<open>ValueError\<close> for a value that is not in the list\<close>
  "index_of [] x = None"
| "index_of (y # ys) x = (if y = x then Some 0 else map_option Suc (index_of ys x))"

definition not_in_list :: "string \<Rightarrow> error" where
  \<comment> \<open>the \<open>ValueError\<close> of \<open>list.index\<close>\<close>
  "not_in_list x = ValueError ([CHR 0x27] @ x @ [CHR 0x27] @ '' is not in list'')"

definition merge_risk :: "string \<Rightarrow> string \<Rightarrow> error + string" where
  \<comment> \<open>\<open>risk_levels[max(baseline_risk_idx, ai_risk_idx)]\<close>\<close>
  "merge_risk baseline_risk ai_risk_value =
     (case index_of risk_levels baseline_risk of
        None \<Rightarrow> Inl (not_in_list baseline_risk)
      | Some baseline_risk_idx \<Rightarrow>
          (case index_of risk_levels ai_risk_value of
             None \<Rightarrow> Inl (not_in_list ai_risk_value)
           | Some ai_risk_idx \<Rightarrow> Inr (risk_levels ! max baseline_risk_idx ai_risk_idx)))"

definition update_risk :: "enhanced_report \<Rightarrow> risk_value \<Rightarrow> error + enhanced_report" where
  \<comment> \<open>the block "Update risk level based on AI assessment"\<close>
  "update_risk combined ai_risk_v =
     (case ai_risk_v of
        RiskList \<Rightarrow>
          Inl (AttributeError ([CHR 0x27] @ ''list'' @ [CHR 0x27] @ '' object has no attribute ''
                               @ [CHR 0x27] @ ''get'' @ [CHR 0x27]))
      | RiskDict overall factors mitigation \<Rightarrow>
          (case overall of
             None \<Rightarrow> Inr combined
           | Some r \<Rightarrow>
               if r = [] then Inr combined
               else (case merge_risk (e_risk_level combined) r of
                       Inl e \<Rightarrow> Inl e
                     | Inr m \<Rightarrow> Inr (combined\<lparr>ai_risk_level := Some r, e_risk_level := m\<rparr>))))"

definition combine_analyses :: "enhanced_report \<Rightarrow> ai_analysis \<Rightarrow> error + enhanced_report" where
  \<comment> \<open>\<open>_combine_analyses\<close>; the arguments \<open>text\<close> and \<open>pii_data\<close> are not used by it\<close>
  "combine_analyses baseline_analysis ai =
     (let violations_obj = 0;
          vstore = (\<lambda>a. [])(violations_obj := e_violations baseline_analysis);
          recommendations_obj = 0;
          rstore = (\<lambda>a. [])(recommendations_obj := e_recommendations baseline_analysis);
          \<comment> \<open>\<open>combined = baseline_analysis.copy()\<close>\<close>
          combined_violations = violations_obj;
          combined_recommendations = recommendations_obj;
          \<comment> \<open>\<open>baseline_violations\<close> is what \<open>combined.get\<close> returns for the key \<open>violations\<close>\<close>
          baseline_violations = combined_violations;
          vstore = add_ai_violations combined_violations baseline_violations
                     (ai_violations ai) vstore;
          \<comment> \<open>likewise \<open>baseline_recommendations\<close>, for the key \<open>recommendations\<close>\<close>
          baseline_recommendations = combined_recommendations;
          rstore = add_ai_recommendations combined_recommendations baseline_recommendations
                     (ai_recommendations ai) rstore;
          combined = baseline_analysis
            \<lparr>e_violations := vstore combined_violations,
             e_recommendations := rstore combined_recommendations\<rparr>;
          ai_risk_v = get_or (ai_risk ai) (RiskDict None None None)
      in case update_risk combined ai_risk_v of
           Inl e \<Rightarrow> Inl e
         | Inr combined \<Rightarrow>
             (let combined = combined
                    \<lparr>ai_insights := Some (get_or (ai_insights_in ai) []),
                     ai_risk_assessment := Some ai_risk_v\<rparr>
              in Inr (if e_violations combined \<noteq> []
                      then combined\<lparr>e_compliance_status := ''NON-COMPLIANT''\<rparr>
                      else combined)))"

definition error_analysis :: "string \<Rightarrow> ai_analysis" where
  \<comment> \<open>what \<open>_get_mistral_text_analysis\<close> and \<open>_get_mistral_image_analysis\<close> return when the
      call or the parsing of the answer raises\<close>
  "error_analysis msg =
     \<lparr>ai_violations = [], ai_recommendations = [], ai_risk = None, ai_insights_in = None,
      ai_error = Some msg\<rparr>"

definition get_mistral_analysis :: "error + ai_analysis \<Rightarrow> ai_analysis" where
  \<comment> \<open>the argument is the outcome of the request to the model: it raised, or it gave an
      answer that was parsed\<close>
  "get_mistral_analysis outcome =
     (case outcome of Inl e \<Rightarrow> error_analysis (str_of_error e) | Inr a \<Rightarrow> a)"

text \<open>
  \<open>_prepare_dpa_context\<close> runs before the request to the model is made and outside the
  \<open>try\<close> that guards the request; the prompt built from its result goes to the model and
  is not modelled further.
\<close>

record dpa_context =
  dpa_title :: string
  key_sections :: "(string \<times> section_data) list"
  context_definitions :: "(string \<times> string) list"
  context_penalties :: "(string \<times> jdict) list"

fun context_sections :: "knowledge_base \<Rightarrow> string list \<Rightarrow> (string \<times> section_data) list" where
  "context_sections kb [] = []"
| "context_sections kb (section_num # rest) =
     (let sec = get_section kb section_num
      in if sec \<noteq> []
         then (section_num,
               [(''title'', dict_get sec ''title'' []),
                (''content'', take 500 (dict_get sec ''content'' []) @ ''...'')])
              # context_sections kb rest
         else context_sections kb rest)"

fun context_definition_entries ::
  "knowledge_base \<Rightarrow> string list \<Rightarrow> error + (string \<times> string) list" where
  \<comment> \<open>\<open>definition["definition"]\<close> raises \<open>KeyError\<close> when the entry has no such key\<close>
  "context_definition_entries kb [] = Inr []"
| "context_definition_entries kb (key_term # rest) =
     (case get_definition kb key_term of
        None \<Rightarrow> context_definition_entries kb rest
      | Some d \<Rightarrow>
          if d = [] then context_definition_entries kb rest
          else (case map_of d ''definition'' of
                  None \<Rightarrow> Inl (KeyError ([CHR 0x27] @ ''definition'' @ [CHR 0x27]))
                | Some text_of_definition \<Rightarrow>
                    (case context_definition_entries kb rest of
                       Inl e \<Rightarrow> Inl e
                     | Inr entries \<Rightarrow> Inr ((key_term, text_of_definition) # entries))))"

fun context_penalty_entries :: "knowledge_base \<Rightarrow> string list \<Rightarrow> (string \<times> jdict) list" where
  "context_penalty_entries kb [] = []"
| "context_penalty_entries kb (section_num # rest) =
     (let penalty = get_penalty_info kb section_num
      in if penalty \<noteq> []
         then (section_num,
               [(''title'', dict_get penalty ''title'' (JStr [])),
                (''fines'', dict_get penalty ''fines'' (JStrs [])),
                (''imprisonment'', dict_get penalty ''imprisonment'' (JStrs []))])
              # context_penalty_entries kb rest
         else context_penalty_entries kb rest)"

definition prepare_dpa_context :: "knowledge_base \<Rightarrow> error + dpa_context" where
  \<comment> \<open>\<open>_prepare_dpa_context\<close>\<close>
  "prepare_dpa_context kb =
     (case context_definition_entries kb
             [''personal information'', ''consent'', ''sensitive personal information'',
              ''processing''] of
        Inl e \<Rightarrow> Inl e
      | Inr entries \<Rightarrow>
          Inr \<lparr>dpa_title = ''Republic Act No. 10173 - Data Privacy Act of 2012'',
               key_sections = context_sections kb [''11'', ''12'', ''13'', ''16'', ''20'', ''21''],
               context_definitions = entries,
               context_penalties = context_penalty_entries kb [''25'', ''26'', ''27'', ''28'']\<rparr>)"

fun truthy :: "string option \<Rightarrow> bool" where
  \<comment> \<open>\<open>if image_path:\<close>: neither \<open>None\<close> nor the empty string\<close>
  "truthy None = False"
| "truthy (Some s) = (s \<noteq> [])"

definition analyze_document_with_ai ::
  "knowledge_base \<Rightarrow> string \<Rightarrow> error + ai_analysis \<Rightarrow> string \<Rightarrow> pii list \<Rightarrow> string
     \<Rightarrow> string option \<Rightarrow> error + enhanced_report" where
  "analyze_document_with_ai kb now outcome text pii_data doc_name image_path =
     (let baseline_analysis = get_comprehensive_analysis kb now text pii_data
      in case prepare_dpa_context kb of
           Inl e \<Rightarrow> Inl e
         | Inr dpa_context \<Rightarrow>
             (let ai = get_mistral_analysis outcome;
                  model_used = (if truthy image_path then ''pixtral-12b-2409''
                                else ''mistral-small-latest'');
                  analysis_kind = (if truthy image_path then ''hybrid_ai_vision_enhanced''
                                   else ''hybrid_ai_enhanced'')
              in case combine_analyses baseline_analysis ai of
                   Inl e \<Rightarrow> Inl e
                 | Inr enhanced \<Rightarrow>
                     Inr (enhanced
                       \<lparr>e_document_name := Some doc_name,
                        e_analysis_date := Some now,
                        e_analysis_metadata :=
                          [(''document_name'', JStr doc_name),
                           (''analysis_date'', JStr now),
                           (''ai_model'', JStr model_used),
                           (''knowledge_base_version'', JStr ''v2''),
                           (''analysis_type'', JStr analysis_kind),
                           (''has_image'', JBool (image_path \<noteq> None))]\<rparr>)))"

definition image_error_report :: "string \<Rightarrow> string \<Rightarrow> error \<Rightarrow> enhanced_report" where
  \<comment> \<open>the dictionary returned by the \<open>except\<close> branch of \<open>analyze_image_document\<close>\<close>
  "image_error_report now doc_name e =
     \<lparr>e_compliance_status = ''ERROR'',
      e_risk_level = ''UNKNOWN'',
      e_violations = [],
      e_recommendations =
        [\<lparr>priority = ''HIGH'', action = ''Manual review required'',
          rec_description = ''Image analysis failed: '' @ str_of_error e,
          section_reference = ''System Error'',
          implementation = None, rec_source = None\<rparr>],
      e_analysis_metadata =
        [(''analysis_type'', JStr ''image_analysis_failed''), (''error'', JStr (str_of_error e))],
      e_document_name = Some doc_name,
      e_analysis_date = Some now,
      e_pii_summary = Some \<lparr>regular_pii = [], sensitive_pii = [], total_pii_count = 0,
                             sensitive_count = 0, regular_count = 0\<rparr>,
      e_consent_indicators = None, e_purpose_indicators = None,
      ai_risk_level = None, ai_insights = None, ai_risk_assessment = None,
      extracted_text = Some ''Text extraction failed''\<rparr>"

definition image_analysis_body ::
  "knowledge_base \<Rightarrow> string \<Rightarrow> error + string \<Rightarrow> (string \<Rightarrow> error + pii list)
     \<Rightarrow> error + ai_analysis \<Rightarrow> string \<Rightarrow> string \<Rightarrow> error + enhanced_report" where
  \<comment> \<open>the \<open>try\<close> block of \<open>analyze_image_document\<close>; \<open>extraction\<close> is the outcome of the
      vision model's text extraction, \<open>detect\<close> the external entity recogniser\<close>
  "image_analysis_body kb now extraction detect outcome image_path doc_name =
     (case extraction of
        Inl e \<Rightarrow> Inl e
      | Inr extracted \<Rightarrow>
          (case detect extracted of
             Inl e \<Rightarrow> Inl e
           | Inr pii_results \<Rightarrow>
               (let pii_categorized = categorize_pii pii_results
                in case analyze_document_with_ai kb now outcome extracted pii_results
                          doc_name (Some image_path) of
                     Inl e \<Rightarrow> Inl e
                   | Inr result \<Rightarrow>
                       Inr (result
                         \<lparr>e_pii_summary :=
                            (case e_pii_summary result of
                               None \<Rightarrow> Some pii_categorized
                             | Some s \<Rightarrow> Some s),
                          extracted_text := Some extracted\<rparr>))))"

definition analyze_image_document ::
  "knowledge_base \<Rightarrow> string \<Rightarrow> error + string \<Rightarrow> (string \<Rightarrow> error + pii list)
     \<Rightarrow> error + ai_analysis \<Rightarrow> string \<Rightarrow> string \<Rightarrow> enhanced_report" where
  "analyze_image_document kb now extraction detect outcome image_path doc_name =
     (case image_analysis_body kb now extraction detect outcome image_path doc_name of
        Inr result \<Rightarrow> result
      | Inl e \<Rightarrow> image_error_report now doc_name e)"

section \<open>The entry point (\<open>DPAComplianceChecker.analyze_document\<close>)\<close>

datatype analysis = Traditional report | Enhanced enhanced_report

definition analyze_document ::
  "knowledge_base \<Rightarrow> bool \<Rightarrow> string \<Rightarrow> error + ai_analysis \<Rightarrow> pii list \<Rightarrow> string \<Rightarrow> string
     \<Rightarrow> analysis" where
  \<comment> \<open>\<open>pii_results\<close> is what the entity recogniser returned for \<open>text\<close>\<close>
  "analyze_document kb use_ai_enhancement now outcome pii_results text doc_name =
     (let pii_categorized = categorize_pii pii_results;
          consent = detect_consent_indicators text;
          purpose = detect_purpose_statements text
      in if use_ai_enhancement then
           (case analyze_document_with_ai kb now outcome text pii_results doc_name None of
              Inr compliance_report \<Rightarrow>
                Enhanced (compliance_report
                  \<lparr>e_consent_indicators := Some consent,
                   e_purpose_indicators := Some purpose,
                   e_pii_summary := Some pii_categorized\<rparr>)
            | Inl e \<Rightarrow>
                Traditional (traditional_analysis kb now text doc_name pii_categorized
                               consent purpose))
         else Traditional (traditional_analysis kb now text doc_name pii_categorized
                             consent purpose))"

section \<open>Auxiliary functions for stating results\<close>

text \<open>
  These two functions are not in the source.  \<open>kept_violations vs ais\<close> lists the entries
  of \<open>ais\<close> that the merging loop appends when the one list object it both tests and
  extends holds \<open>vs\<close> at the start; \<open>kept_recommendations\<close> is its counterpart.
\<close>

fun kept_violations :: "kb_violation list \<Rightarrow> ai_violation list \<Rightarrow> ai_violation list" where
  "kept_violations vs [] = []"
| "kept_violations vs (a # rest) =
     (if is_duplicate_violation a vs then kept_violations vs rest
      else a # kept_violations (vs @ [standard_violation a]) rest)"

fun kept_recommendations ::
  "recommendation list \<Rightarrow> ai_recommendation list \<Rightarrow> ai_recommendation list" where
  "kept_recommendations rs [] = []"
| "kept_recommendations rs (a # rest) =
     (if is_duplicate_recommendation a rs then kept_recommendations rs rest
      else a # kept_recommendations (rs @ [standard_rec a]) rest)"

text \<open>
  \<open>merged_violations vs ais\<close> is the content of the violations list object after the
  merging loop of \<open>_combine_analyses\<close> has run over \<open>ais\<close>, the object holding \<open>vs\<close> at
  the start and both names of the loop referring to it.
\<close>

definition merged_violations :: "kb_violation list \<Rightarrow> ai_violation list \<Rightarrow> kb_violation list" where
  "merged_violations vs ais = add_ai_violations 0 0 ais ((\<lambda>a. [])(0 := vs)) 0"

text \<open>
  \<open>candidates\<close> names the value of the variable \<open>results\<close> of \<open>search_content\<close> just
  before it is sorted.
\<close>

definition candidates :: "knowledge_base \<Rightarrow> string \<Rightarrow> int \<Rightarrow> search_result list" where
  "candidates kb keyword limit =
     (let hits = (case map_of (search_index kb) (lower keyword) of
                    None \<Rightarrow> []
                  | Some entries \<Rightarrow> slice_to limit (map IndexHit entries))
      in if int (length hits) < limit then hits @ section_hits (lower keyword) (sections kb)
         else hits)"

section \<open>Facts about the string and pattern functions\<close>

lemma finditer_from_empty_iff:
  "w \<noteq> [] \<Longrightarrow> finditer_from pos 0 prev w s = [] \<longleftrightarrow> \<not> search_from prev w s"
proof (induction s arbitrary: pos prev)
  case Nil
  then show ?case by (simp add: match_here_def startswith_def lower_def)
next
  case (Cons c cs)
  then show ?case by simp
qed

lemma indicators_of_empty_iff:
  "w \<noteq> [] \<Longrightarrow> indicators_of (WordBounded w) text = [] \<longleftrightarrow> \<not> re_search (WordBounded w) text"
  by (simp add: indicators_of_def finditer_from_empty_iff)

lemma detect_consent_indicators_empty_iff:
  "detect_consent_indicators text = [] \<longleftrightarrow> (\<forall>p \<in> set consent_patterns. \<not> re_search p text)"
  by (simp add: detect_consent_indicators_def consent_patterns_def indicators_of_empty_iff)

lemma detect_purpose_statements_empty_iff:
  "detect_purpose_statements text = [] \<longleftrightarrow> (\<forall>p \<in> set purpose_patterns. \<not> re_search p text)"
  by (simp add: detect_purpose_statements_def purpose_patterns_def indicators_of_empty_iff)

lemma security_scan_find:
  "security_scan ps text s20 =
     (case find (\<lambda>p. re_search p text) ps of
        None \<Rightarrow> []
      | Some p \<Rightarrow> [security_violation p s20])"
  by (induction ps) simp_all

lemma security_scan_types:
  "v \<in> set (security_scan ps text s20) \<Longrightarrow> violation_type v = ''inadequate_security''"
  by (induction ps) (auto simp: security_violation_def split: if_splits)

lemma length_security_scan: "length (security_scan ps text s20) \<le> 1"
  by (induction ps) simp_all

lemma filter_security_scan:
  "filter (\<lambda>v. violation_type v = ''inadequate_security'') (security_scan ps text s20)
     = security_scan ps text s20"
  by (rule filter_True) (simp add: security_scan_types)

lemma security_filter_check_violations:
  "filter (\<lambda>v. violation_type v = ''inadequate_security'')
          (check_violations kb text pc consent purpose)
     = check_security_violations text (get_section kb ''20'')"
  by (simp add: check_violations_def Let_def check_security_violations_def
      filter_security_scan unauthorized_processing_def inadequate_spi_protection_def
      lack_of_transparency_def excessive_processing_def)

section \<open>Risk level of the rule-based checker\<close>

text \<open>
  C2 (as stated): the risk level follows the precedence CRITICAL, HIGH, MEDIUM, LOW, and a
  sensitive count above 5 gives CRITICAL even with no violation.  The function returns
  \<open>LOW\<close> for an empty violation list before it looks at any count, so the claim fails
  for no violations and six sensitive items, where the result is \<open>LOW\<close>.
\<close>

theorem assess_risk_level_empty_counterexample:
  "sensitive_count (categorize_pii (replicate 6
      \<lparr>entity_type = ''HEALTH_INFO'', pii_text = ''diabetes'', pii_start = 0, pii_end = 8,
       confidence = 7 / 10, is_sensitive = True, sensitive = None\<rparr>)) = 6 \<and>
   assess_risk_level [] (categorize_pii (replicate 6
      \<lparr>entity_type = ''HEALTH_INFO'', pii_text = ''diabetes'', pii_start = 0, pii_end = 8,
       confidence = 7 / 10, is_sensitive = True, sensitive = None\<rparr>)) = ''LOW''"
  by code_simp

text \<open>
  C2 (amended): the risk level is LOW when the violation list is empty, whatever the
  counts; for a non-empty list it is CRITICAL if some violation has severity CRITICAL or
  the sensitive count exceeds 5, else HIGH if some violation has severity HIGH or the
  total count exceeds 10, else MEDIUM.
\<close>

theorem assess_risk_level_precedence:
  "assess_risk_level vs pc =
     (if vs = [] then ''LOW''
      else if (\<exists>v \<in> set vs. severity v = ''CRITICAL'') \<or> 5 < sensitive_count pc
        then ''CRITICAL''
      else if (\<exists>v \<in> set vs. severity v = ''HIGH'') \<or> 10 < total_pii_count pc
        then ''HIGH''
      else ''MEDIUM'')"
  by (auto simp: assess_risk_level_def Let_def filter_empty_conv)

theorem assess_risk_level_precedence_witness:
  "assess_risk_level [lack_of_transparency []]
     \<lparr>regular_pii = [], sensitive_pii = [], total_pii_count = 6, sensitive_count = 6,
      regular_count = 0\<rparr> = ''CRITICAL'' \<and>
   assess_risk_level [lack_of_transparency []]
     \<lparr>regular_pii = [], sensitive_pii = [], total_pii_count = 11, sensitive_count = 0,
      regular_count = 11\<rparr> = ''HIGH'' \<and>
   assess_risk_level [lack_of_transparency []]
     \<lparr>regular_pii = [], sensitive_pii = [], total_pii_count = 1, sensitive_count = 0,
      regular_count = 1\<rparr> = ''MEDIUM''"
  using assess_risk_level_precedence [of "[lack_of_transparency []]"
      "\<lparr>regular_pii = [], sensitive_pii = [], total_pii_count = 6, sensitive_count = 6,
        regular_count = 0\<rparr>"]
    assess_risk_level_precedence [of "[lack_of_transparency []]"
      "\<lparr>regular_pii = [], sensitive_pii = [], total_pii_count = 11, sensitive_count = 0,
        regular_count = 11\<rparr>"]
    assess_risk_level_precedence [of "[lack_of_transparency []]"
      "\<lparr>regular_pii = [], sensitive_pii = [], total_pii_count = 1, sensitive_count = 0,
        regular_count = 1\<rparr>"]
  by (simp add: lack_of_transparency_def)

section \<open>The unauthorized-processing rule\<close>

text \<open>
  C3 (as stated): the Section 12 rule fires exactly when the number of sensitive items is
  positive and no consent language is present, so a text with only non-sensitive items
  does not trigger it.  The rule tests the total item count: one detected name, which is
  not sensitive, in a text without consent language triggers it.
\<close>

theorem unauthorized_processing_regular_only_counterexample:
  "sensitive_count (categorize_pii
      [\<lparr>entity_type = ''PERSON'', pii_text = ''Juan'', pii_start = 0, pii_end = 4,
        confidence = 1, is_sensitive = False, sensitive = None\<rparr>]) = 0 \<and>
   detect_consent_indicators ''Juan'' = [] \<and>
   map violation_type
     (check_violations empty_kb ''Juan''
        (categorize_pii
           [\<lparr>entity_type = ''PERSON'', pii_text = ''Juan'', pii_start = 0, pii_end = 4,
             confidence = 1, is_sensitive = False, sensitive = None\<rparr>])
        (detect_consent_indicators ''Juan'') (detect_purpose_statements ''Juan''))
   = [''unauthorized_processing'', ''lack_of_transparency'']"
  by code_simp

text \<open>
  C3 (amended): the Section 12 rule (severity HIGH) fires if and only if the total number
  of detected items, sensitive or not, is greater than 0 and no consent-language pattern
  matches the text; it then contributes exactly one violation.
\<close>

theorem unauthorized_processing_iff:
  "((\<exists>v \<in> set (check_violations kb text pc (detect_consent_indicators text) purpose).
        violation_type v = ''unauthorized_processing'')
      \<longleftrightarrow> 0 < total_pii_count pc \<and> (\<forall>p \<in> set consent_patterns. \<not> re_search p text)) \<and>
   filter (\<lambda>v. violation_type v = ''unauthorized_processing'')
          (check_violations kb text pc (detect_consent_indicators text) purpose)
     = (if 0 < total_pii_count pc \<and> (\<forall>p \<in> set consent_patterns. \<not> re_search p text)
        then [unauthorized_processing (get_section kb ''12'') pc] else []) \<and>
   v_section (unauthorized_processing (get_section kb ''12'') pc) = ''Section 12'' \<and>
   severity (unauthorized_processing (get_section kb ''12'') pc) = ''HIGH''"
proof -
  have sec: "filter (\<lambda>v. violation_type v = ''unauthorized_processing'')
               (check_security_violations text s20) = []" for s20
    by (auto simp: filter_empty_conv check_security_violations_def dest: security_scan_types)
  have f: "filter (\<lambda>v. violation_type v = ''unauthorized_processing'')
             (check_violations kb text pc (detect_consent_indicators text) purpose)
           = (if 0 < total_pii_count pc \<and> detect_consent_indicators text = []
              then [unauthorized_processing (get_section kb ''12'') pc] else [])"
    by (simp add: check_violations_def Let_def sec unauthorized_processing_def
        inadequate_spi_protection_def lack_of_transparency_def excessive_processing_def)
  have e: "(\<exists>v \<in> set (check_violations kb text pc (detect_consent_indicators text) purpose).
              violation_type v = ''unauthorized_processing'')
           \<longleftrightarrow> filter (\<lambda>v. violation_type v = ''unauthorized_processing'')
                 (check_violations kb text pc (detect_consent_indicators text) purpose) \<noteq> []"
    by (simp add: filter_empty_conv)
  show ?thesis
    unfolding e f detect_consent_indicators_empty_iff
    by (simp add: unauthorized_processing_def)
qed

theorem unauthorized_processing_iff_witness:
  "filter (\<lambda>v. violation_type v = ''unauthorized_processing'')
          (check_violations empty_kb ''I agree''
             \<lparr>regular_pii = [], sensitive_pii = [], total_pii_count = 3, sensitive_count = 3,
              regular_count = 0\<rparr>
             (detect_consent_indicators ''I agree'') []) = []"
proof -
  have m: "re_search (WordBounded ''agree'') ''I agree''"
    by code_simp
  have "\<not> (\<forall>p \<in> set consent_patterns. \<not> re_search p ''I agree'')"
    using m by (simp add: consent_patterns_def)
  then show ?thesis
    using unauthorized_processing_iff [of empty_kb "''I agree''"
        "\<lparr>regular_pii = [], sensitive_pii = [], total_pii_count = 3, sensitive_count = 3,
          regular_count = 0\<rparr>" "[]"]
    by simp
qed

section \<open>The general recommendation\<close>

text \<open>
  C6 (as stated): the recommendation "Conduct privacy impact assessment" is present
  exactly when at least one sensitive item was detected.  The function tests the total
  item count: with one detected name and no sensitive item the recommendation is there.
\<close>

theorem privacy_impact_assessment_regular_only_counterexample:
  "sensitive_count (categorize_pii
      [\<lparr>entity_type = ''PERSON'', pii_text = ''Juan'', pii_start = 0, pii_end = 4,
        confidence = 1, is_sensitive = False, sensitive = None\<rparr>]) = 0 \<and>
   map action
     (generate_recommendations []
        (categorize_pii
           [\<lparr>entity_type = ''PERSON'', pii_text = ''Juan'', pii_start = 0, pii_end = 4,
             confidence = 1, is_sensitive = False, sensitive = None\<rparr>]))
   = [''Conduct privacy impact assessment'']"
  by (simp add: categorize_pii_def generate_recommendations_def privacy_impact_assessment_def)

text \<open>
  C6 (amended): the recommendation "Conduct privacy impact assessment" is in the list
  exactly when at least one item, sensitive or not, was detected (the total count is
  positive), whatever violations fired; it is then the last entry and occurs once.
\<close>

theorem privacy_impact_assessment_iff:
  "((\<exists>r \<in> set (generate_recommendations vs pc).
        action r = ''Conduct privacy impact assessment'') \<longleftrightarrow> 0 < total_pii_count pc) \<and>
   filter (\<lambda>r. action r = ''Conduct privacy impact assessment'')
          (generate_recommendations vs pc)
     = (if 0 < total_pii_count pc then [privacy_impact_assessment] else []) \<and>
   (0 < total_pii_count pc \<longrightarrow>
      last (generate_recommendations vs pc) = privacy_impact_assessment)"
proof -
  have f: "filter (\<lambda>r. action r = ''Conduct privacy impact assessment'')
             (generate_recommendations vs pc)
           = (if 0 < total_pii_count pc then [privacy_impact_assessment] else [])"
    by (simp add: generate_recommendations_def Let_def privacy_impact_assessment_def)
  have e: "(\<exists>r \<in> set (generate_recommendations vs pc).
              action r = ''Conduct privacy impact assessment'')
           \<longleftrightarrow> filter (\<lambda>r. action r = ''Conduct privacy impact assessment'')
                 (generate_recommendations vs pc) \<noteq> []"
    by (simp add: filter_empty_conv)
  have l: "0 < total_pii_count pc \<longrightarrow>
             last (generate_recommendations vs pc) = privacy_impact_assessment"
    by (simp add: generate_recommendations_def Let_def)
  show ?thesis
    unfolding e f using l by simp
qed

theorem privacy_impact_assessment_iff_witness:
  "last (generate_recommendations [lack_of_transparency []]
      \<lparr>regular_pii = [], sensitive_pii = [], total_pii_count = 2, sensitive_count = 0,
       regular_count = 2\<rparr>) = privacy_impact_assessment"
  using privacy_impact_assessment_iff [of "[lack_of_transparency []]"
      "\<lparr>regular_pii = [], sensitive_pii = [], total_pii_count = 2, sensitive_count = 0,
        regular_count = 2\<rparr>"]
  by simp

section \<open>The security rule\<close>

text \<open>
  C7: for every text the rule-based evaluator emits at most one
  \<open>inadequate_security\<close> violation (Section 20), however many of the insecurity patterns
  match, and the one emitted reports the first pattern, in the fixed order, that matches.
\<close>

theorem inadequate_security_at_most_once:
  "length (filter (\<lambda>v. violation_type v = ''inadequate_security'')
             (check_violations kb text pc consent purpose)) \<le> 1 \<and>
   filter (\<lambda>v. violation_type v = ''inadequate_security'')
          (check_violations kb text pc consent purpose)
     = (case find (\<lambda>p. re_search p text) unencrypted_patterns of
          None \<Rightarrow> []
        | Some p \<Rightarrow> [security_violation p (get_section kb ''20'')]) \<and>
   (\<forall>p. find (\<lambda>p. re_search p text) unencrypted_patterns = Some p \<longrightarrow>
      (\<exists>before after. unencrypted_patterns = before @ p # after \<and> re_search p text \<and>
         (\<forall>q \<in> set before. \<not> re_search q text)) \<and>
      v_section (security_violation p (get_section kb ''20'')) = ''Section 20'' \<and>
      details (security_violation p (get_section kb ''20''))
        = ''Security concern detected: '' @ regex_source p @ ''. Section 20 requires: ''
          @ get_section_summary (get_section kb ''20''))"
proof -
  have a: "length (filter (\<lambda>v. violation_type v = ''inadequate_security'')
             (check_violations kb text pc consent purpose)) \<le> 1"
    using length_security_scan [of unencrypted_patterns "text" "get_section kb ''20''"]
    by (simp add: security_filter_check_violations check_security_violations_def)
  have b: "filter (\<lambda>v. violation_type v = ''inadequate_security'')
             (check_violations kb text pc consent purpose)
           = (case find (\<lambda>p. re_search p text) unencrypted_patterns of
                None \<Rightarrow> []
              | Some p \<Rightarrow> [security_violation p (get_section kb ''20'')])"
    by (simp add: security_filter_check_violations check_security_violations_def
        security_scan_find)
  have c: "\<exists>before after. unencrypted_patterns = before @ p # after \<and> re_search p text \<and>
             (\<forall>q \<in> set before. \<not> re_search q text)"
    if "find (\<lambda>p. re_search p text) unencrypted_patterns = Some p" for p
  proof -
    from that obtain i where i: "i < length unencrypted_patterns" "re_search p text"
      "p = unencrypted_patterns ! i" "\<forall>j<i. \<not> re_search (unencrypted_patterns ! j) text"
      unfolding find_Some_iff by blast
    have "unencrypted_patterns
            = take i unencrypted_patterns @ p # drop (Suc i) unencrypted_patterns"
      using i(1,3) by (simp add: id_take_nth_drop)
    moreover have "\<forall>q \<in> set (take i unencrypted_patterns). \<not> re_search q text"
      using i(1,4) by (auto simp: in_set_conv_nth)
    ultimately show ?thesis using i(2) by blast
  qed
  show ?thesis
    using a b c by (simp add: security_violation_def)
qed

theorem inadequate_security_at_most_once_witness:
  "filter (\<lambda>v. violation_type v = ''inadequate_security'')
          (check_violations empty_kb ''stored unsecured, with no password and Unencrypted''
             \<lparr>regular_pii = [], sensitive_pii = [], total_pii_count = 0, sensitive_count = 0,
              regular_count = 0\<rparr> [] [])
     = [security_violation (WordBounded ''unencrypted'') []]"
proof -
  have f: "find (\<lambda>p. re_search p ''stored unsecured, with no password and Unencrypted'')
             unencrypted_patterns = Some (WordBounded ''unencrypted'')"
    by code_simp
  show ?thesis
    using inadequate_security_at_most_once [of empty_kb
        "''stored unsecured, with no password and Unencrypted''"
        "\<lparr>regular_pii = [], sensitive_pii = [], total_pii_count = 0, sensitive_count = 0,
          regular_count = 0\<rparr>" "[]" "[]"]
    by (simp add: f get_section_def empty_kb_def dict_get_def)
qed

section \<open>Facts about substrings and the merging loops\<close>

lemma startswith_iff: "startswith s sub \<longleftrightarrow> (\<exists>post. s = sub @ post)"
  unfolding startswith_def
  by (metis append_eq_conv_conj append_take_drop_id)

lemma str_in_iff: "str_in sub s \<longleftrightarrow> (\<exists>pre post. s = pre @ sub @ post)"
proof (induction s)
  case Nil
  then show ?case by auto
next
  case (Cons c cs)
  show ?case
  proof
    assume "str_in sub (c # cs)"
    then consider "startswith (c # cs) sub" | "str_in sub cs" by auto
    then show "\<exists>pre post. c # cs = pre @ sub @ post"
    proof cases
      case 1
      then obtain post where "c # cs = sub @ post" by (auto simp: startswith_iff)
      then have "c # cs = [] @ sub @ post" by simp
      then show ?thesis by blast
    next
      case 2
      then obtain pre post where "cs = pre @ sub @ post" using Cons.IH by auto
      then have "c # cs = (c # pre) @ sub @ post" by simp
      then show ?thesis by blast
    qed
  next
    assume "\<exists>pre post. c # cs = pre @ sub @ post"
    then obtain pre post where e: "c # cs = pre @ sub @ post" by auto
    show "str_in sub (c # cs)"
    proof (cases pre)
      case Nil
      with e have "c # cs = sub @ post" by simp
      then have "startswith (c # cs) sub" unfolding startswith_iff by blast
      then show ?thesis by simp
    next
      case (Cons d pre')
      then have "cs = pre' @ sub @ post" using e by simp
      then show ?thesis using Cons.IH by auto
    qed
  qed
qed

lemma duplicate_scan_iff:
  "duplicate_scan s t vs \<longleftrightarrow>
     (\<exists>b \<in> set vs. contains_either s (lower (kv_section b)) \<and>
                    contains_either t (lower (kv_violation b)))"
  by (induction vs) (auto simp: Let_def)

lemma is_duplicate_violation_iff:
  "is_duplicate_violation a vs \<longleftrightarrow>
     (\<exists>b \<in> set vs.
        contains_either (lower (get_or (av_section a) [])) (lower (kv_section b)) \<and>
        contains_either (lower (get_or (av_violation_type a) [])) (lower (kv_violation b)))"
  by (simp add: is_duplicate_violation_def duplicate_scan_iff)

lemma is_duplicate_violation_mono:
  "is_duplicate_violation a vs \<Longrightarrow> set vs \<subseteq> set ws \<Longrightarrow> is_duplicate_violation a ws"
  unfolding is_duplicate_violation_iff by blast

lemma add_ai_violations_same:
  "add_ai_violations c c ais st c = st c @ map standard_violation (kept_violations (st c) ais)"
  by (induction ais arbitrary: st) (simp_all add: append_to_def)

text \<open>
  Had the two names referred to different list objects, the loop would have tested every
  secondary violation against the baseline alone.
\<close>

lemma add_ai_violations_distinct:
  "c \<noteq> b \<Longrightarrow>
     add_ai_violations c b ais st b = st b \<and>
     add_ai_violations c b ais st c
       = st c @ map standard_violation (filter (\<lambda>a. \<not> is_duplicate_violation a (st b)) ais)"
  by (induction ais arbitrary: st) (simp_all add: append_to_def)

lemma add_ai_recommendations_same:
  "add_ai_recommendations c c ais st c = st c @ map standard_rec (kept_recommendations (st c) ais)"
  by (induction ais arbitrary: st) (simp_all add: append_to_def)

lemma subseq_kept_violations: "subseq (kept_violations vs ais) ais"
  by (induction ais arbitrary: vs) auto

lemma kept_violations_not_duplicate:
  "a \<in> set (kept_violations vs ais) \<Longrightarrow> \<not> is_duplicate_violation a vs"
proof (induction ais arbitrary: vs)
  case Nil
  then show ?case by simp
next
  case (Cons x xs)
  show ?case
  proof (cases "is_duplicate_violation x vs")
    case True
    then show ?thesis using Cons by simp
  next
    case False
    then have "a = x \<or> a \<in> set (kept_violations (vs @ [standard_violation x]) xs)"
      using Cons.prems by simp
    then show ?thesis
    proof
      assume "a = x" then show ?thesis using False by simp
    next
      assume "a \<in> set (kept_violations (vs @ [standard_violation x]) xs)"
      then have "\<not> is_duplicate_violation a (vs @ [standard_violation x])"
        by (rule Cons.IH)
      then show ?thesis
        using is_duplicate_violation_mono [of a vs "vs @ [standard_violation x]"] by auto
    qed
  qed
qed

lemma set_kept_violations_subset:
  "set (kept_violations vs ais) \<subseteq> set ais"
  by (induction ais arbitrary: vs) auto

lemma kept_violations_keeps:
  "\<not> is_duplicate_violation a (vs @ map standard_violation pre) \<Longrightarrow>
   a \<in> set (kept_violations vs (pre @ a # post))"
proof (induction pre arbitrary: vs)
  case Nil
  then show ?case by simp
next
  case (Cons x xs)
  show ?case
  proof (cases "is_duplicate_violation x vs")
    case True
    have "\<not> is_duplicate_violation a (vs @ map standard_violation xs)"
      using Cons.prems
        is_duplicate_violation_mono [of a "vs @ map standard_violation xs"
          "vs @ map standard_violation (x # xs)"]
      by auto
    then show ?thesis using True Cons.IH by simp
  next
    case False
    have "\<not> is_duplicate_violation a ((vs @ [standard_violation x]) @ map standard_violation xs)"
      using Cons.prems by simp
    then show ?thesis using False Cons.IH by simp
  qed
qed

lemma update_risk_fields:
  "update_risk c rv = Inr c' \<Longrightarrow>
     e_violations c' = e_violations c \<and> e_recommendations c' = e_recommendations c \<and>
     e_compliance_status c' = e_compliance_status c"
  by (auto simp: update_risk_def split: risk_value.splits option.splits if_splits sum.splits)

lemma combine_analyses_violations:
  assumes "combine_analyses b ai = Inr r"
  shows "e_violations r
           = e_violations b @ map standard_violation (kept_violations (e_violations b) (ai_violations ai))"
proof -
  obtain c' where u: "update_risk
      (b\<lparr>e_violations := e_violations b @ map standard_violation (kept_violations (e_violations b) (ai_violations ai)),
         e_recommendations := e_recommendations b @ map standard_rec (kept_recommendations (e_recommendations b) (ai_recommendations ai))\<rparr>)
      (get_or (ai_risk ai) (RiskDict None None None)) = Inr c'"
    and r: "r = (if e_violations c' \<noteq> []
                 then c'\<lparr>ai_insights := Some (get_or (ai_insights_in ai) []),
                        ai_risk_assessment := Some (get_or (ai_risk ai) (RiskDict None None None)),
                        e_compliance_status := ''NON-COMPLIANT''\<rparr>
                 else c'\<lparr>ai_insights := Some (get_or (ai_insights_in ai) []),
                        ai_risk_assessment := Some (get_or (ai_risk ai) (RiskDict None None None))\<rparr>)"
    using assms
    by (auto simp: combine_analyses_def Let_def add_ai_violations_same add_ai_recommendations_same
        split: sum.splits if_splits)
  show ?thesis using update_risk_fields [OF u] r by auto
qed

lemma add_ai_violations_append:
  "add_ai_violations c b (xs @ ys) st = add_ai_violations c b ys (add_ai_violations c b xs st)"
  by (induction xs arbitrary: st) simp_all

lemma merged_violations_kept:
  "merged_violations vs ais = vs @ map standard_violation (kept_violations vs ais)"
  using add_ai_violations_same [of 0 ais "(\<lambda>a. [])(0 := vs)"]
  by (simp add: merged_violations_def)

lemma merged_violations_Nil: "merged_violations vs [] = vs"
  by (simp add: merged_violations_def)

lemma merged_violations_snoc:
  "merged_violations vs (pre @ [x])
     = (if is_duplicate_violation x (merged_violations vs pre) then merged_violations vs pre
        else merged_violations vs pre @ [standard_violation x])"
  by (simp add: merged_violations_def add_ai_violations_append append_to_def)

lemma merged_violations_append:
  "merged_violations vs (pre @ post)
     = merged_violations vs pre
       @ map standard_violation (kept_violations (merged_violations vs pre) post)"
  using add_ai_violations_same [of 0 post "add_ai_violations 0 0 pre ((\<lambda>a. [])(0 := vs))"]
  by (simp add: merged_violations_def add_ai_violations_append)

lemma combine_analyses_merged:
  "combine_analyses baseline ai = Inr r \<Longrightarrow>
     e_violations r = merged_violations (e_violations baseline) (ai_violations ai)"
  by (simp add: combine_analyses_violations merged_violations_kept)

section \<open>Compliance status and violations\<close>

lemma combine_analyses_status:
  assumes "combine_analyses b ai = Inr r"
  shows "e_compliance_status r
           = (if e_violations r \<noteq> [] then ''NON-COMPLIANT'' else e_compliance_status b)"
proof -
  obtain c' where u: "update_risk
      (b\<lparr>e_violations := e_violations b @ map standard_violation (kept_violations (e_violations b) (ai_violations ai)),
         e_recommendations := e_recommendations b @ map standard_rec (kept_recommendations (e_recommendations b) (ai_recommendations ai))\<rparr>)
      (get_or (ai_risk ai) (RiskDict None None None)) = Inr c'"
    and r: "r = (if e_violations c' \<noteq> []
                 then c'\<lparr>ai_insights := Some (get_or (ai_insights_in ai) []),
                        ai_risk_assessment := Some (get_or (ai_risk ai) (RiskDict None None None)),
                        e_compliance_status := ''NON-COMPLIANT''\<rparr>
                 else c'\<lparr>ai_insights := Some (get_or (ai_insights_in ai) []),
                        ai_risk_assessment := Some (get_or (ai_risk ai) (RiskDict None None None))\<rparr>)"
    using assms
    by (auto simp: combine_analyses_def Let_def add_ai_violations_same add_ai_recommendations_same
        split: sum.splits if_splits)
  show ?thesis using update_risk_fields [OF u] r by auto
qed

lemma baseline_status:
  "e_compliance_status (get_comprehensive_analysis kb now text pii_data)
     = (if e_violations (get_comprehensive_analysis kb now text pii_data) = []
        then ''COMPLIANT'' else ''NON-COMPLIANT'')"
  by (simp add: get_comprehensive_analysis_def Let_def)

lemma with_ai_status:
  assumes "analyze_document_with_ai kb now outcome text pii_data doc image_path = Inr r"
  shows "e_compliance_status r = (if e_violations r = [] then ''COMPLIANT'' else ''NON-COMPLIANT'')"
proof -
  let ?b = "get_comprehensive_analysis kb now text pii_data"
  obtain c where c: "combine_analyses ?b (get_mistral_analysis outcome) = Inr c"
    and r: "e_compliance_status r = e_compliance_status c" "e_violations r = e_violations c"
    using assms by (auto simp: analyze_document_with_ai_def Let_def split: sum.splits)
  have v: "e_violations c = [] \<Longrightarrow> e_violations ?b = []"
    using combine_analyses_violations [OF c] by simp
  show ?thesis
    using combine_analyses_status [OF c] r v baseline_status [of kb now "text" pii_data]
    by (auto split: if_splits)
qed

lemma traditional_status:
  "compliance_status (traditional_analysis kb now text doc pc consent purpose)
     = (if violations (traditional_analysis kb now text doc pc consent purpose) = []
        then ''COMPLIANT'' else ''NON-COMPLIANT'')"
  by (simp add: traditional_analysis_def Let_def)

text \<open>
  C1: in every report of the engine, on the rule-based path (\<open>_traditional_analysis\<close>),
  on the reconciled path (\<open>analyze_document_with_ai\<close>, when it returns) and so in
  whatever \<open>analyze_document\<close> returns, the compliance status is \<open>NON-COMPLIANT\<close>
  if and only if the violations list is non-empty, and \<open>COMPLIANT\<close> otherwise.
\<close>

theorem compliance_status_iff_violations:
  "(compliance_status (traditional_analysis kb now text doc pc consent purpose) = ''NON-COMPLIANT''
      \<longleftrightarrow> violations (traditional_analysis kb now text doc pc consent purpose) \<noteq> []) \<and>
   (compliance_status (traditional_analysis kb now text doc pc consent purpose) = ''COMPLIANT''
      \<longleftrightarrow> violations (traditional_analysis kb now text doc pc consent purpose) = []) \<and>
   (\<forall>r. analyze_document_with_ai kb now outcome text pii_data doc image_path = Inr r \<longrightarrow>
      (e_compliance_status r = ''NON-COMPLIANT'' \<longleftrightarrow> e_violations r \<noteq> []) \<and>
      (e_compliance_status r = ''COMPLIANT'' \<longleftrightarrow> e_violations r = [])) \<and>
   (case analyze_document kb use_ai now outcome pii_data text doc of
      Traditional r \<Rightarrow>
        (compliance_status r = ''NON-COMPLIANT'' \<longleftrightarrow> violations r \<noteq> []) \<and>
        (compliance_status r = ''COMPLIANT'' \<longleftrightarrow> violations r = [])
    | Enhanced r \<Rightarrow>
        (e_compliance_status r = ''NON-COMPLIANT'' \<longleftrightarrow> e_violations r \<noteq> []) \<and>
        (e_compliance_status r = ''COMPLIANT'' \<longleftrightarrow> e_violations r = []))"
proof -
  have t: "(compliance_status (traditional_analysis kb now text d p c u) = ''NON-COMPLIANT''
              \<longleftrightarrow> violations (traditional_analysis kb now text d p c u) \<noteq> []) \<and>
           (compliance_status (traditional_analysis kb now text d p c u) = ''COMPLIANT''
              \<longleftrightarrow> violations (traditional_analysis kb now text d p c u) = [])" for d p c u
    by (simp add: traditional_status)
  have a: "(e_compliance_status r = ''NON-COMPLIANT'' \<longleftrightarrow> e_violations r \<noteq> []) \<and>
           (e_compliance_status r = ''COMPLIANT'' \<longleftrightarrow> e_violations r = [])"
    if "analyze_document_with_ai kb now outcome text pii_data doc img = Inr r" for r img
    using with_ai_status [OF that] by simp
  have d: "case analyze_document kb use_ai now outcome pii_data text doc of
      Traditional r \<Rightarrow>
        (compliance_status r = ''NON-COMPLIANT'' \<longleftrightarrow> violations r \<noteq> []) \<and>
        (compliance_status r = ''COMPLIANT'' \<longleftrightarrow> violations r = [])
    | Enhanced r \<Rightarrow>
        (e_compliance_status r = ''NON-COMPLIANT'' \<longleftrightarrow> e_violations r \<noteq> []) \<and>
        (e_compliance_status r = ''COMPLIANT'' \<longleftrightarrow> e_violations r = [])"
  proof (cases "use_ai")
    case False
    then show ?thesis using t by (simp add: analyze_document_def Let_def)
  next
    case True
    show ?thesis
    proof (cases "analyze_document_with_ai kb now outcome text pii_data doc None")
      case (Inl e)
      then show ?thesis using True t by (simp add: analyze_document_def Let_def)
    next
      case (Inr r)
      then show ?thesis using True a [OF Inr] by (simp add: analyze_document_def Let_def)
    qed
  qed
  show ?thesis using t a d by blast
qed

theorem compliance_status_iff_violations_witness:
  "\<not> isl (analyze_document_with_ai empty_kb ''t''
            (Inr \<lparr>ai_violations =
                    [\<lparr>av_section = Some ''Section 21'', av_violation_type = Some ''no_officer'',
                      av_severity = Some ''HIGH'', av_description = None,
                      av_legal_basis = None, av_confidence = None\<rparr>],
                  ai_recommendations = [], ai_risk = None, ai_insights_in = None,
                  ai_error = None\<rparr>)
            ''all data is kept secure'' [] ''doc'' None) \<and>
   e_violations (get_comprehensive_analysis empty_kb ''t'' ''all data is kept secure'' []) = [] \<and>
   e_compliance_status (projr (analyze_document_with_ai empty_kb ''t''
            (Inr \<lparr>ai_violations =
                    [\<lparr>av_section = Some ''Section 21'', av_violation_type = Some ''no_officer'',
                      av_severity = Some ''HIGH'', av_description = None,
                      av_legal_basis = None, av_confidence = None\<rparr>],
                  ai_recommendations = [], ai_risk = None, ai_insights_in = None,
                  ai_error = None\<rparr>)
            ''all data is kept secure'' [] ''doc'' None)) = ''NON-COMPLIANT''"
proof -
  let ?ai = "Inr \<lparr>ai_violations =
                    [\<lparr>av_section = Some ''Section 21'', av_violation_type = Some ''no_officer'',
                      av_severity = Some ''HIGH'', av_description = None,
                      av_legal_basis = None, av_confidence = None\<rparr>],
                  ai_recommendations = [], ai_risk = None, ai_insights_in = None,
                  ai_error = None\<rparr> :: error + ai_analysis"
  let ?x = "analyze_document_with_ai empty_kb ''t'' ?ai ''all data is kept secure'' [] ''doc'' None"
  have 1: "\<not> isl ?x"
    by code_simp
  have 2: "e_violations (projr ?x) \<noteq> []"
    by code_simp
  have 3: "e_violations (get_comprehensive_analysis empty_kb ''t'' ''all data is kept secure'' []) = []"
    by code_simp
  have 4: "?x = Inr (projr ?x)"
    using 1 by (cases ?x) simp_all
  note main = compliance_status_iff_violations [of empty_kb "''t''" "''all data is kept secure''"
      "''doc''" "categorize_pii []" "[]" "[]" ?ai "[]" None False]
  have "e_compliance_status (projr ?x) = ''NON-COMPLIANT'' \<longleftrightarrow> e_violations (projr ?x) \<noteq> []"
    by (rule conjunct1 [OF mp [OF spec [OF conjunct1 [OF conjunct2 [OF conjunct2 [OF main]]]] 4]])
  then have "e_compliance_status (projr ?x) = ''NON-COMPLIANT''"
    using 2 by simp
  then show ?thesis
    using 1 3 by simp
qed

section \<open>Duplicate suppression in reconciliation\<close>

lemma standard_violation_source: "kv_source (standard_violation a) = Some ''mistral_ai''"
  by (simp add: standard_violation_def)

text \<open>
  C4 (as stated): a secondary violation is suppressed exactly when it matches some
  baseline violation on section and type, and every other secondary violation is
  appended, tagged \<open>external_model\<close>.  With a baseline that has no violation and the same
  secondary violation given twice, only one entry is appended, and its tag is
  \<open>mistral_ai\<close>: the list that the loop tests against is the list it appends to.
\<close>

theorem duplicate_suppression_counterexample:
  "e_violations (get_comprehensive_analysis empty_kb ''t'' ''all data is kept secure'' []) = [] \<and>
   map_sum id e_violations
     (combine_analyses (get_comprehensive_analysis empty_kb ''t'' ''all data is kept secure'' [])
        \<lparr>ai_violations =
           [\<lparr>av_section = Some ''Section 21'', av_violation_type = Some ''no_officer'',
             av_severity = Some ''HIGH'', av_description = None, av_legal_basis = None,
             av_confidence = None\<rparr>,
            \<lparr>av_section = Some ''Section 21'', av_violation_type = Some ''no_officer'',
             av_severity = Some ''HIGH'', av_description = None, av_legal_basis = None,
             av_confidence = None\<rparr>],
         ai_recommendations = [], ai_risk = None, ai_insights_in = None, ai_error = None\<rparr>)
   = Inr [\<lparr>kv_section = ''Section 21'', kv_title = ''Section 21'',
           kv_violation = ''no_officer'', kv_severity = ''HIGH'', kv_description = [],
           kv_dpa_reference = None, kv_details = Some [], kv_confidence = Some (4 / 5),
           kv_source = Some ''mistral_ai''\<rparr>]"
  by code_simp

text \<open>
  C4 (amended): \<open>_is_duplicate_violation\<close> holds for a secondary violation and a list
  exactly when some entry of the list has a section that contains or is contained in the
  secondary section, and a \<open>violation\<close> field that contains or is contained in the
  secondary type, both compared in lower case.  The merged list starts as the baseline
  list and only grows at its end, by converted secondary violations in their original
  order, each tagged \<open>mistral_ai\<close>.  A secondary violation that duplicates a baseline
  violation is not appended; one that duplicates no entry of the merged list as it stands
  when its turn comes, that is neither a baseline violation nor a secondary violation
  appended before it, is appended.
\<close>

theorem duplicate_suppression:
  "(is_duplicate_violation a vs \<longleftrightarrow>
      (\<exists>b \<in> set vs.
         (str_in (lower (get_or (av_section a) [])) (lower (kv_section b))
          \<or> str_in (lower (kv_section b)) (lower (get_or (av_section a) []))) \<and>
         (str_in (lower (get_or (av_violation_type a) [])) (lower (kv_violation b))
          \<or> str_in (lower (kv_violation b)) (lower (get_or (av_violation_type a) []))))) \<and>
   (\<forall>sub s. str_in sub s \<longleftrightarrow> (\<exists>pre post. s = pre @ sub @ post)) \<and>
   (\<forall>r. combine_analyses baseline ai = Inr r \<longrightarrow>
      e_violations r = merged_violations (e_violations baseline) (ai_violations ai)) \<and>
   merged_violations vs [] = vs \<and>
   (\<forall>pre x. is_duplicate_violation x vs \<longrightarrow>
      merged_violations vs (pre @ [x]) = merged_violations vs pre) \<and>
   (\<forall>pre x. \<not> is_duplicate_violation x (merged_violations vs pre) \<longrightarrow>
      merged_violations vs (pre @ [x]) = merged_violations vs pre @ [standard_violation x]) \<and>
   (\<forall>pre post. prefix (merged_violations vs pre) (merged_violations vs (pre @ post))) \<and>
   (\<forall>ais. \<exists>kept. merged_violations vs ais = vs @ map standard_violation kept \<and>
      subseq kept ais) \<and>
   (\<forall>x. kv_source (standard_violation x) = Some ''mistral_ai'')"
proof -
  have 1: "is_duplicate_violation a vs \<longleftrightarrow>
      (\<exists>b \<in> set vs.
         (str_in (lower (get_or (av_section a) [])) (lower (kv_section b))
          \<or> str_in (lower (kv_section b)) (lower (get_or (av_section a) []))) \<and>
         (str_in (lower (get_or (av_violation_type a) [])) (lower (kv_violation b))
          \<or> str_in (lower (kv_violation b)) (lower (get_or (av_violation_type a) []))))"
    by (simp add: is_duplicate_violation_iff contains_either_def)
  have 2: "\<forall>sub s. str_in sub s \<longleftrightarrow> (\<exists>pre post. s = pre @ sub @ post)"
    using str_in_iff by blast
  have 3: "\<forall>r. combine_analyses baseline ai = Inr r \<longrightarrow>
      e_violations r = merged_violations (e_violations baseline) (ai_violations ai)"
    using combine_analyses_merged by blast
  have 4: "merged_violations vs [] = vs"
    by (rule merged_violations_Nil)
  have 5: "merged_violations vs (pre @ [x]) = merged_violations vs pre"
    if d: "is_duplicate_violation x vs" for pre x
  proof -
    have "set vs \<subseteq> set (merged_violations vs pre)"
      by (simp add: merged_violations_kept)
    then have "is_duplicate_violation x (merged_violations vs pre)"
      using d is_duplicate_violation_mono by blast
    then show ?thesis by (simp add: merged_violations_snoc)
  qed
  have 6: "\<forall>pre x. \<not> is_duplicate_violation x (merged_violations vs pre) \<longrightarrow>
      merged_violations vs (pre @ [x]) = merged_violations vs pre @ [standard_violation x]"
    by (simp add: merged_violations_snoc)
  have 7: "\<forall>pre post. prefix (merged_violations vs pre) (merged_violations vs (pre @ post))"
    by (simp add: merged_violations_append)
  have 8: "\<forall>ais. \<exists>kept. merged_violations vs ais = vs @ map standard_violation kept \<and>
      subseq kept ais"
    using merged_violations_kept subseq_kept_violations by blast
  have 9: "\<forall>x. kv_source (standard_violation x) = Some ''mistral_ai''"
    by (simp add: standard_violation_source)
  show ?thesis
    using 1 2 3 4 5 6 7 8 9 by blast
qed

theorem duplicate_suppression_witness:
  "\<not> isl (combine_analyses (get_comprehensive_analysis empty_kb ''t'' ''records are on paper'' [])
             \<lparr>ai_violations =
                [\<lparr>av_section = Some ''Section 20'', av_violation_type = Some ''Security'',
                  av_severity = None, av_description = None, av_legal_basis = None,
                  av_confidence = None\<rparr>,
                 \<lparr>av_section = Some ''Section 20'', av_violation_type = Some ''Security breach'',
                  av_severity = None, av_description = None, av_legal_basis = None,
                  av_confidence = None\<rparr>],
              ai_recommendations = [], ai_risk = None, ai_insights_in = None,
              ai_error = None\<rparr>) \<and>
   map kv_violation
     (e_violations (get_comprehensive_analysis empty_kb ''t'' ''records are on paper'' []))
     = [''Inadequate security measures''] \<and>
   e_violations (projr (combine_analyses
        (get_comprehensive_analysis empty_kb ''t'' ''records are on paper'' [])
        \<lparr>ai_violations =
           [\<lparr>av_section = Some ''Section 20'', av_violation_type = Some ''Security'',
             av_severity = None, av_description = None, av_legal_basis = None,
             av_confidence = None\<rparr>,
            \<lparr>av_section = Some ''Section 20'', av_violation_type = Some ''Security breach'',
             av_severity = None, av_description = None, av_legal_basis = None,
             av_confidence = None\<rparr>],
         ai_recommendations = [], ai_risk = None, ai_insights_in = None,
         ai_error = None\<rparr>))
     = e_violations (get_comprehensive_analysis empty_kb ''t'' ''records are on paper'' [])
       @ [standard_violation
            \<lparr>av_section = Some ''Section 20'', av_violation_type = Some ''Security breach'',
             av_severity = None, av_description = None, av_legal_basis = None,
             av_confidence = None\<rparr>]"
proof -
  let ?s1 = "\<lparr>av_section = Some ''Section 20'', av_violation_type = Some ''Security'',
              av_severity = None, av_description = None, av_legal_basis = None,
              av_confidence = None\<rparr>"
  let ?s2 = "\<lparr>av_section = Some ''Section 20'', av_violation_type = Some ''Security breach'',
              av_severity = None, av_description = None, av_legal_basis = None,
              av_confidence = None\<rparr>"
  let ?ai = "\<lparr>ai_violations = [?s1, ?s2], ai_recommendations = [], ai_risk = None,
              ai_insights_in = None, ai_error = None\<rparr>"
  let ?b = "get_comprehensive_analysis empty_kb ''t'' ''records are on paper'' []"
  let ?vs = "e_violations ?b"
  let ?c = "combine_analyses ?b ?ai"
  have c1: "\<not> isl ?c"
    by code_simp
  have c2: "?c = Inr (projr ?c)"
    using c1 by (cases ?c) simp_all
  have b: "map kv_violation ?vs = [''Inadequate security measures'']"
    by code_simp
  have d1: "is_duplicate_violation ?s1 ?vs"
    by code_simp
  have d2: "\<not> is_duplicate_violation ?s2 ?vs"
    by code_simp
  note main = duplicate_suppression [where a = ?s1 and vs = ?vs and baseline = ?b and ai = ?ai]
  have m: "e_violations (projr ?c) = merged_violations ?vs (ai_violations ?ai)"
    by (rule mp [OF spec [OF conjunct1 [OF conjunct2 [OF conjunct2 [OF main]]]] c2])
  have n0: "merged_violations ?vs [] = ?vs"
    using main by blast
  have "merged_violations ?vs ([] @ [?s1]) = merged_violations ?vs []"
    using main d1 by blast
  then have n1: "merged_violations ?vs [?s1] = ?vs"
    using n0 by simp
  have "\<not> is_duplicate_violation ?s2 (merged_violations ?vs [?s1])"
    unfolding n1 by (rule d2)
  then have "merged_violations ?vs ([?s1] @ [?s2])
               = merged_violations ?vs [?s1] @ [standard_violation ?s2]"
    using main by blast
  then have n2: "merged_violations ?vs [?s1, ?s2] = ?vs @ [standard_violation ?s2]"
    using n1 by simp
  have "e_violations (projr ?c) = ?vs @ [standard_violation ?s2]"
    using m n2 by simp
  then show ?thesis
    using c1 b by blast
qed

section \<open>Risk level after reconciliation\<close>

lemma index_of_in:
  "x \<in> set xs \<Longrightarrow> \<exists>i. index_of xs x = Some i \<and> i < length xs \<and> xs ! i = x"
  by (induction xs) auto

lemma index_of_nth:
  "distinct xs \<Longrightarrow> k < length xs \<Longrightarrow> index_of xs (xs ! k) = Some k"
proof (induction xs arbitrary: k)
  case Nil
  then show ?case by simp
next
  case (Cons y ys)
  then show ?case by (cases k) auto
qed

lemma distinct_risk_levels: "distinct risk_levels"
  by (simp add: risk_levels_def)

lemma baseline_risk_valid:
  "e_risk_level (get_comprehensive_analysis kb now text pii_data) \<in> set risk_levels"
  by (simp add: get_comprehensive_analysis_def Let_def risk_levels_def)

lemma combine_analyses_risk:
  assumes "ai_risk ai = Some (RiskDict (Some r) f m)" "r \<noteq> []"
    and "merge_risk (e_risk_level baseline) r = Inr x"
  shows "\<exists>res. combine_analyses baseline ai = Inr res \<and> e_risk_level res = x \<and>
           ai_risk_level res = Some r"
  using assms by (simp add: combine_analyses_def Let_def update_risk_def)

text \<open>
  C5: for every baseline report and every secondary result that carries a risk assessment,
  both risk levels being among LOW, MEDIUM, HIGH, CRITICAL, reconciliation returns a report
  whose risk level is the greater of the two in the order LOW < MEDIUM < HIGH < CRITICAL
  (the position in \<open>risk_levels\<close>); the merge gives the same result with its two risk
  arguments exchanged.
\<close>

theorem merged_risk_is_max:
  "e_risk_level baseline \<in> set risk_levels \<Longrightarrow> r \<in> set risk_levels \<Longrightarrow>
   ai_risk ai = Some (RiskDict (Some r) f m) \<Longrightarrow>
     risk_levels = [''LOW'', ''MEDIUM'', ''HIGH'', ''CRITICAL''] \<and>
     (\<exists>res i j.
        combine_analyses baseline ai = Inr res \<and>
        index_of risk_levels (e_risk_level baseline) = Some i \<and>
        index_of risk_levels r = Some j \<and>
        index_of risk_levels (e_risk_level res) = Some (max i j) \<and>
        e_risk_level res = (if i \<le> j then r else e_risk_level baseline)) \<and>
     merge_risk (e_risk_level baseline) r = merge_risk r (e_risk_level baseline)"
proof -
  assume b: "e_risk_level baseline \<in> set risk_levels" and r: "r \<in> set risk_levels"
    and ai: "ai_risk ai = Some (RiskDict (Some r) f m)"
  obtain i where i: "index_of risk_levels (e_risk_level baseline) = Some i"
    "i < length risk_levels" "risk_levels ! i = e_risk_level baseline"
    using index_of_in [OF b] by blast
  obtain j where j: "index_of risk_levels r = Some j" "j < length risk_levels"
    "risk_levels ! j = r"
    using index_of_in [OF r] by blast
  have ne: "r \<noteq> []"
    using r by (auto simp: risk_levels_def)
  have m1: "merge_risk (e_risk_level baseline) r = Inr (risk_levels ! max i j)"
    using i(1) j(1) by (simp add: merge_risk_def)
  have m2: "merge_risk r (e_risk_level baseline) = Inr (risk_levels ! max j i)"
    using i(1) j(1) by (simp add: merge_risk_def)
  obtain res where res: "combine_analyses baseline ai = Inr res"
    "e_risk_level res = risk_levels ! max i j"
    using combine_analyses_risk [OF ai ne m1] by blast
  have lt: "max i j < length risk_levels"
    using i(2) j(2) by simp
  have ix: "index_of risk_levels (e_risk_level res) = Some (max i j)"
    using index_of_nth [OF distinct_risk_levels lt] res(2) by simp
  have v: "e_risk_level res = (if i \<le> j then r else e_risk_level baseline)"
    using res(2) i(3) j(3) by (simp add: max_def)
  have c: "merge_risk (e_risk_level baseline) r = merge_risk r (e_risk_level baseline)"
    using m1 m2 by (simp add: max.commute)
  have rl: "risk_levels = [''LOW'', ''MEDIUM'', ''HIGH'', ''CRITICAL'']"
    by (simp add: risk_levels_def)
  show ?thesis
    using rl res(1) i(1) j(1) ix v c by blast
qed

theorem merged_risk_is_max_witness:
  "e_risk_level (get_comprehensive_analysis empty_kb ''t'' ''nothing here'' []) = ''MEDIUM'' \<and>
   map_sum id e_risk_level
     (combine_analyses (get_comprehensive_analysis empty_kb ''t'' ''nothing here'' [])
        \<lparr>ai_violations = [], ai_recommendations = [],
         ai_risk = Some (RiskDict (Some ''CRITICAL'') None None), ai_insights_in = None,
         ai_error = None\<rparr>) = Inr ''CRITICAL''"
proof -
  let ?b = "get_comprehensive_analysis empty_kb ''t'' ''nothing here'' []"
  let ?ai = "\<lparr>ai_violations = [], ai_recommendations = [],
         ai_risk = Some (RiskDict (Some ''CRITICAL'') None None), ai_insights_in = None,
         ai_error = None\<rparr>"
  have 0: "e_risk_level ?b = ''MEDIUM''"
    by code_simp
  have 1: "e_risk_level ?b \<in> set risk_levels"
    unfolding 0 by (simp add: risk_levels_def)
  have 2: "''CRITICAL'' \<in> set risk_levels"
    by (simp add: risk_levels_def)
  have 3: "ai_risk ?ai = Some (RiskDict (Some ''CRITICAL'') None None)"
    by simp
  have i: "index_of risk_levels ''MEDIUM'' = Some 1"
    by (simp add: risk_levels_def)
  have j: "index_of risk_levels ''CRITICAL'' = Some 3"
    by (simp add: risk_levels_def)
  from merged_risk_is_max [OF 1 2 3] obtain res i' j' where
    r: "combine_analyses ?b ?ai = Inr res"
      "index_of risk_levels (e_risk_level ?b) = Some i'"
      "index_of risk_levels ''CRITICAL'' = Some j'"
      "e_risk_level res = (if i' \<le> j' then ''CRITICAL'' else e_risk_level ?b)"
    by blast
  have "i' = 1" "j' = 3"
    using r(2,3) i j unfolding 0 by simp_all
  then have "e_risk_level res = ''CRITICAL''"
    using r(4) by simp
  then show ?thesis
    using 0 r(1) by simp
qed

section \<open>Failure of the image analysis\<close>

lemma image_analysis_body_fails_iff:
  "image_analysis_body kb now extraction detect outcome image_path doc = Inl e \<longleftrightarrow>
     extraction = Inl e \<or>
     (\<exists>t. extraction = Inr t \<and>
        (detect t = Inl e \<or>
         (\<exists>p. detect t = Inr p \<and>
            analyze_document_with_ai kb now outcome t p doc (Some image_path) = Inl e)))"
  by (auto simp: image_analysis_body_def Let_def split: sum.splits)

text \<open>
  C10: \<open>analyze_image_document\<close> always returns a report.  When a step of the analysis
  raises (the text extraction, the entity recogniser or the reconciled analysis), the
  report has the compliance status \<open>ERROR\<close>, which is neither \<open>COMPLIANT\<close> nor
  \<open>NON-COMPLIANT\<close>, the risk level \<open>UNKNOWN\<close>, no violations, and exactly one
  recommendation, of priority HIGH and action "Manual review required".
\<close>

theorem image_failure_report:
  "image_analysis_body kb now extraction detect outcome image_path doc = Inl e \<Longrightarrow>
     e_compliance_status (analyze_image_document kb now extraction detect outcome image_path doc)
       = ''ERROR'' \<and>
     ''ERROR'' \<notin> {''COMPLIANT'', ''NON-COMPLIANT''} \<and>
     e_risk_level (analyze_image_document kb now extraction detect outcome image_path doc)
       = ''UNKNOWN'' \<and>
     e_violations (analyze_image_document kb now extraction detect outcome image_path doc) = [] \<and>
     (\<exists>rec. e_recommendations
               (analyze_image_document kb now extraction detect outcome image_path doc) = [rec] \<and>
            priority rec = ''HIGH'' \<and> action rec = ''Manual review required'' \<and>
            rec_description rec = ''Image analysis failed: '' @ str_of_error e)"
  by (simp add: analyze_image_document_def image_error_report_def)

theorem image_failure_report_witness:
  "image_analysis_body empty_kb ''t'' (Inr ''scanned text'') (\<lambda>t. Inr [])
     (Inr \<lparr>ai_violations = [], ai_recommendations = [], ai_risk = Some RiskList,
           ai_insights_in = None, ai_error = None\<rparr>) ''form.png'' ''doc''
     = Inl (AttributeError ([CHR 0x27] @ ''list'' @ [CHR 0x27] @ '' object has no attribute ''
                            @ [CHR 0x27] @ ''get'' @ [CHR 0x27])) \<and>
   e_compliance_status
     (analyze_image_document empty_kb ''t'' (Inr ''scanned text'') (\<lambda>t. Inr [])
        (Inr \<lparr>ai_violations = [], ai_recommendations = [], ai_risk = Some RiskList,
              ai_insights_in = None, ai_error = None\<rparr>) ''form.png'' ''doc'') = ''ERROR'' \<and>
   e_violations
     (analyze_image_document empty_kb ''t'' (Inr ''scanned text'') (\<lambda>t. Inr [])
        (Inr \<lparr>ai_violations = [], ai_recommendations = [], ai_risk = Some RiskList,
              ai_insights_in = None, ai_error = None\<rparr>) ''form.png'' ''doc'') = []"
proof -
  have f: "image_analysis_body empty_kb ''t'' (Inr ''scanned text'') (\<lambda>t. Inr [])
     (Inr \<lparr>ai_violations = [], ai_recommendations = [], ai_risk = Some RiskList,
           ai_insights_in = None, ai_error = None\<rparr>) ''form.png'' ''doc''
     = Inl (AttributeError ([CHR 0x27] @ ''list'' @ [CHR 0x27] @ '' object has no attribute ''
                            @ [CHR 0x27] @ ''get'' @ [CHR 0x27]))"
    by code_simp
  show ?thesis
    using image_failure_report [OF f] f by simp
qed

section \<open>Knowledge-base lookups without a backing file\<close>

text \<open>
  C8: the lookups of the knowledge base are total.  \<open>get_section\<close> returns the empty
  record \<open>{}\<close> for every section id that is not in the knowledge base; when the backing
  file is absent, loading succeeds with an empty knowledge base, on which the section,
  definition, penalty and search queries all return an empty result.
\<close>

theorem lookups_degrade_to_empty:
  "(map_of (sections kb) section_number = None \<longrightarrow> get_section kb section_number = []) \<and>
   (\<forall>kb'. load_knowledge_base Absent = Inr kb' \<longrightarrow>
      get_section kb' section_number = [] \<and>
      get_definition kb' term = None \<and>
      get_penalty_info kb' section_number = [] \<and>
      search_content kb' keyword limit = []) \<and>
   (\<exists>kb'. load_knowledge_base Absent = Inr kb')"
  by (simp add: get_section_def dict_get_def get_definition_def get_penalty_info_def
      search_content_def empty_kb_def slice_to_def sort_by_relevance_def)

theorem lookups_degrade_to_empty_witness:
  "get_section
     (empty_kb\<lparr>sections := [(''12'', [(''title'', ''Criteria''), (''content'', ''Consent.'')])]\<rparr>)
     ''99'' = [] \<and>
   get_section (projr (load_knowledge_base Absent)) ''12'' = [] \<and>
   search_content (projr (load_knowledge_base Absent)) ''consent'' 10 = []"
proof -
  let ?kb = "empty_kb\<lparr>sections := [(''12'', [(''title'', ''Criteria''), (''content'', ''Consent.'')])]\<rparr>"
  have 1: "map_of (sections ?kb) ''99'' = None"
    by simp
  have 2: "load_knowledge_base Absent = Inr (projr (load_knowledge_base Absent))"
    by simp
  note main = lookups_degrade_to_empty [of ?kb "''99''" "''12''" "''consent''" 10]
  note main2 = lookups_degrade_to_empty [of ?kb "''12''" "''12''" "''consent''" 10]
  have a: "get_section ?kb ''99'' = []"
    by (rule mp [OF conjunct1 [OF main] 1])
  have b: "get_section (projr (load_knowledge_base Absent)) ''12'' = [] \<and>
      get_definition (projr (load_knowledge_base Absent)) ''12'' = None \<and>
      get_penalty_info (projr (load_knowledge_base Absent)) ''12'' = [] \<and>
      search_content (projr (load_knowledge_base Absent)) ''consent'' 10 = []"
    by (rule mp [OF spec [OF conjunct1 [OF conjunct2 [OF main2]]] 2])
  show ?thesis using a b by blast
qed

section \<open>Ranking of search results\<close>

lemma sorted_neg_key:
  "sorted (map (\<lambda>x. - (f x :: int)) xs) \<longleftrightarrow> sorted_wrt (\<lambda>x y. f y \<le> f x) xs"
  by (simp add: sorted_map)

lemma sorted_wrt_slice_to: "sorted_wrt P xs \<Longrightarrow> sorted_wrt P (slice_to n xs)"
  by (simp add: slice_to_def sorted_wrt_take)

lemma length_slice_to: "0 \<le> n \<Longrightarrow> int (length (slice_to n xs)) \<le> n"
  by (simp add: slice_to_def)

lemma sorted_sort_by_relevance:
  "sorted_wrt (\<lambda>x y. relevance y \<le> relevance x) (sort_by_relevance rs)"
  unfolding sort_by_relevance_def sorted_neg_key [symmetric] by (rule sorted_sort_key)

lemma stable_sort_by_relevance:
  "filter (\<lambda>x. relevance x = k) (sort_by_relevance rs) = filter (\<lambda>x. relevance x = k) rs"
proof -
  have "filter (\<lambda>x. - relevance x = - k) (sort_key (\<lambda>x. - relevance x) rs)
          = filter (\<lambda>x. - relevance x = - k) rs"
    by (rule sort_key_stable)
  then show ?thesis by (simp add: sort_by_relevance_def)
qed

lemma search_content_candidates:
  "search_content kb keyword limit = slice_to limit (sort_by_relevance (candidates kb keyword limit))"
  by (simp add: search_content_def candidates_def Let_def)

lemma section_hits_map_filter:
  "section_hits kw secs
     = map (\<lambda>(n, sd). ContentHit n (dict_get sd ''title'' [])
                           (int (str_count (lower (dict_get sd ''content'' [])) kw)))
           (filter (\<lambda>(n, sd). str_in kw (lower (dict_get sd ''content'' []))) secs)"
  by (induction secs) (simp_all split: prod.splits)

lemma matching_sections_map_filter:
  "matching_sections keyword secs
     = map (\<lambda>(n, sd).
              \<lparr>sm_section = n, sm_title = dict_get sd ''title'' [],
               sm_relevance = int (str_count (lower (dict_get sd ''content'' [])) (lower keyword))
                 + int (str_count (lower (dict_get sd ''title'' [])) (lower keyword)) * 2\<rparr>)
           (filter (\<lambda>(n, sd). str_in (lower keyword) (lower (dict_get sd ''content'' []))
                             \<or> str_in (lower keyword) (lower (dict_get sd ''title'' []))) secs)"
  by (induction secs) (simp_all add: Let_def split: prod.splits)

lemma candidates_parts:
  "candidates kb keyword limit
     = slice_to limit (map IndexHit (dict_get (search_index kb) (lower keyword) []))
       @ (if int (length (slice_to limit
                  (map IndexHit (dict_get (search_index kb) (lower keyword) [])))) < limit
          then section_hits (lower keyword) (sections kb) else [])"
  by (simp add: candidates_def Let_def dict_get_def slice_to_def split: option.splits)

lemma prefix_filter_slice_to: "prefix (filter P (slice_to n xs)) (filter P xs)"
  unfolding slice_to_def by (simp add: filter_mono_prefix take_is_prefix)

lemma slice_to_take: "0 \<le> n \<Longrightarrow> slice_to n xs = take (nat n) xs"
  by (simp add: slice_to_def)

lemma stable_search_sections:
  "filter (\<lambda>x. sm_relevance x = k) (search_sections secs keyword)
     = filter (\<lambda>x. sm_relevance x = k) (matching_sections keyword secs)"
proof -
  have "filter (\<lambda>x. - sm_relevance x = - k)
          (sort_key (\<lambda>x. - sm_relevance x) (matching_sections keyword secs))
        = filter (\<lambda>x. - sm_relevance x = - k) (matching_sections keyword secs)"
    by (rule sort_key_stable)
  then show ?thesis by (simp add: search_sections_def)
qed

lemma sorted_search_sections:
  "sorted_wrt (\<lambda>x y. sm_relevance y \<le> sm_relevance x) (search_sections secs keyword)"
  unfolding search_sections_def sorted_neg_key [symmetric] by (rule sorted_sort_key)

lemma stable_descending_unique:
  fixes f :: "'a \<Rightarrow> int"
  assumes "mset ys = mset xs"
    and "sorted_wrt (\<lambda>x y. f y \<le> f x) ys"
    and "\<forall>k. filter (\<lambda>x. f x = k) ys = filter (\<lambda>x. f x = k) xs"
  shows "ys = sort_key (\<lambda>x. - f x) xs"
proof -
  have "sort_key (\<lambda>x. - f x) xs = ys"
  proof (rule properties_for_sort_key)
    show "mset ys = mset xs" by (rule assms(1))
    show "sorted (map (\<lambda>x. - f x) ys)"
      using assms(2) by (simp add: sorted_neg_key)
    show "filter (\<lambda>x. - f k = - f x) ys = filter (\<lambda>x. - f k = - f x) xs" for k
    proof -
      have "(\<lambda>x. - f k = - f x) = (\<lambda>x. f x = f k)" by auto
      then show ?thesis using assms(3) by simp
    qed
  qed
  then show ?thesis by simp
qed

text \<open>
  C9 (as stated): the search returns at most \<open>limit\<close> results, ranked by term frequency
  in the content with title occurrences weighted twice, ties in ascending section id.
  \<open>search_content\<close> does not look at titles: section 1, with one occurrence in its
  content and two in its title, would score 5 and precede section 2, which scores 2, but
  it is returned after it.  Both functions keep ties in the order of the knowledge base:
  two sections of equal score, stored as 2 then 1, are returned as 2 then 1 by
  \<open>search_content\<close> and by \<open>search_sections\<close>.
\<close>

theorem search_ranking_counterexample:
  "search_content
     (empty_kb\<lparr>sections :=
        [(''1'', [(''title'', ''Data data''), (''content'', ''personal data'')]),
         (''2'', [(''title'', ''Scope''), (''content'', ''data about data'')])]\<rparr>)
     ''data'' 10
     = [ContentHit ''2'' ''Scope'' 2, ContentHit ''1'' ''Data data'' 1] \<and>
   int (str_count (lower ''personal data'') ''data'')
     + 2 * int (str_count (lower ''Data data'') ''data'') = 5 \<and>
   int (str_count (lower ''data about data'') ''data'')
     + 2 * int (str_count (lower ''Scope'') ''data'') = 2 \<and>
   search_content
     (empty_kb\<lparr>sections :=
        [(''2'', [(''title'', ''Scope''), (''content'', ''data is kept'')]),
         (''1'', [(''title'', ''Scope''), (''content'', ''data is kept'')])]\<rparr>)
     ''data'' 10
     = [ContentHit ''2'' ''Scope'' 1, ContentHit ''1'' ''Scope'' 1] \<and>
   search_sections
        [(''2'', [(''title'', ''Scope''), (''content'', ''data is kept'')]),
         (''1'', [(''title'', ''Scope''), (''content'', ''data is kept'')])] ''data''
     = [\<lparr>sm_section = ''2'', sm_title = ''Scope'', sm_relevance = 1\<rparr>,
        \<lparr>sm_section = ''1'', sm_title = ''Scope'', sm_relevance = 1\<rparr>]"
  by code_simp

text \<open>
  C9 (amended): \<open>search_content\<close> returns \<open>results[:limit]\<close>, so at most \<open>limit\<close> results
  for a limit that is not negative, of the candidates rearranged in descending order of
  relevance with candidates of equal relevance left in the order they were collected.
  The candidates are the index entries of the keyword (cut to the limit, each of relevance
  1) followed, when these are fewer than the limit, by the sections whose lower-cased
  content contains the lower-cased keyword, in the order of the knowledge base, each with
  the number of occurrences in the content as its relevance; titles are not counted.
  \<open>search_sections\<close> has no limit: it returns every section whose content or title
  contains the keyword, in descending order of the number of occurrences in the content
  plus twice the number in the title, sections of equal score in the order of the
  knowledge base.
\<close>

theorem search_ranking:
  "(\<exists>S. search_content kb keyword limit = slice_to limit S \<and>
        mset S = mset (candidates kb keyword limit) \<and>
        sorted_wrt (\<lambda>x y. relevance y \<le> relevance x) S \<and>
        (\<forall>k. filter (\<lambda>x. relevance x = k) S
              = filter (\<lambda>x. relevance x = k) (candidates kb keyword limit))) \<and>
   candidates kb keyword limit
     = slice_to limit (map IndexHit (dict_get (search_index kb) (lower keyword) []))
       @ (if int (length (slice_to limit
                  (map IndexHit (dict_get (search_index kb) (lower keyword) [])))) < limit
          then section_hits (lower keyword) (sections kb) else []) \<and>
   section_hits (lower keyword) (sections kb)
     = map (\<lambda>(n, sd). ContentHit n (dict_get sd ''title'' [])
                           (int (str_count (lower (dict_get sd ''content'' [])) (lower keyword))))
           (filter (\<lambda>(n, sd). str_in (lower keyword) (lower (dict_get sd ''content'' [])))
                   (sections kb)) \<and>
   (\<forall>e. relevance (IndexHit e) = 1) \<and>
   (\<forall>n t r. relevance (ContentHit n t r) = r) \<and>
   (\<forall>xs :: search_result list. 0 \<le> limit \<longrightarrow> slice_to limit xs = take (nat limit) xs) \<and>
   (0 \<le> limit \<longrightarrow> int (length (search_content kb keyword limit)) \<le> limit) \<and>
   sorted_wrt (\<lambda>x y. relevance y \<le> relevance x) (search_content kb keyword limit) \<and>
   (\<forall>k. prefix (filter (\<lambda>x. relevance x = k) (search_content kb keyword limit))
                (filter (\<lambda>x. relevance x = k) (candidates kb keyword limit))) \<and>
   mset (search_sections secs keyword) = mset (matching_sections keyword secs) \<and>
   sorted_wrt (\<lambda>x y. sm_relevance y \<le> sm_relevance x) (search_sections secs keyword) \<and>
   (\<forall>k. filter (\<lambda>x. sm_relevance x = k) (search_sections secs keyword)
         = filter (\<lambda>x. sm_relevance x = k) (matching_sections keyword secs)) \<and>
   matching_sections keyword secs
     = map (\<lambda>(n, sd).
              \<lparr>sm_section = n, sm_title = dict_get sd ''title'' [],
               sm_relevance = int (str_count (lower (dict_get sd ''content'' [])) (lower keyword))
                 + int (str_count (lower (dict_get sd ''title'' [])) (lower keyword)) * 2\<rparr>)
           (filter (\<lambda>(n, sd). str_in (lower keyword) (lower (dict_get sd ''content'' []))
                             \<or> str_in (lower keyword) (lower (dict_get sd ''title'' []))) secs)"
proof -
  let ?C = "candidates kb keyword limit"
  have 1: "\<exists>S. search_content kb keyword limit = slice_to limit S \<and>
        mset S = mset ?C \<and>
        sorted_wrt (\<lambda>x y. relevance y \<le> relevance x) S \<and>
        (\<forall>k. filter (\<lambda>x. relevance x = k) S = filter (\<lambda>x. relevance x = k) ?C)"
  proof (intro exI conjI)
    show "search_content kb keyword limit = slice_to limit (sort_by_relevance ?C)"
      by (rule search_content_candidates)
    show "mset (sort_by_relevance ?C) = mset ?C"
      by (simp add: sort_by_relevance_def)
    show "sorted_wrt (\<lambda>x y. relevance y \<le> relevance x) (sort_by_relevance ?C)"
      by (rule sorted_sort_by_relevance)
    show "\<forall>k. filter (\<lambda>x. relevance x = k) (sort_by_relevance ?C)
                = filter (\<lambda>x. relevance x = k) ?C"
      by (simp add: stable_sort_by_relevance)
  qed
  have 2: "0 \<le> limit \<longrightarrow> int (length (search_content kb keyword limit)) \<le> limit"
    by (simp add: search_content_candidates length_slice_to)
  have 3: "sorted_wrt (\<lambda>x y. relevance y \<le> relevance x) (search_content kb keyword limit)"
    unfolding search_content_candidates
    by (rule sorted_wrt_slice_to) (rule sorted_sort_by_relevance)
  have 4: "prefix (filter (\<lambda>x. relevance x = k) (search_content kb keyword limit))
                  (filter (\<lambda>x. relevance x = k) ?C)" for k
    using prefix_filter_slice_to [of "\<lambda>x. relevance x = k" limit "sort_by_relevance ?C"]
    by (simp add: search_content_candidates stable_sort_by_relevance)
  have 5: "mset (search_sections secs keyword) = mset (matching_sections keyword secs)"
    by (simp add: search_sections_def)
  have 6: "\<forall>xs :: search_result list. 0 \<le> limit \<longrightarrow> slice_to limit xs = take (nat limit) xs"
    by (simp add: slice_to_take)
  show ?thesis
    using 1 2 3 4 5 6 candidates_parts [of kb keyword limit]
      section_hits_map_filter [of "lower keyword" "sections kb"]
      sorted_search_sections [of secs keyword] stable_search_sections [of _ secs keyword]
      matching_sections_map_filter [of keyword secs]
    by simp
qed

theorem search_ranking_witness:
  "search_content
     (empty_kb\<lparr>sections :=
        [(''1'', [(''title'', ''Data data''), (''content'', ''personal data'')]),
         (''2'', [(''title'', ''Scope''), (''content'', ''data about data'')]),
         (''3'', [(''title'', ''Rights''), (''content'', ''rights over data'')])]\<rparr>)
     ''Data'' 2
     = [ContentHit ''2'' ''Scope'' 2, ContentHit ''1'' ''Data data'' 1] \<and>
   int (length (search_content
     (empty_kb\<lparr>sections :=
        [(''1'', [(''title'', ''Data data''), (''content'', ''personal data'')]),
         (''2'', [(''title'', ''Scope''), (''content'', ''data about data'')]),
         (''3'', [(''title'', ''Rights''), (''content'', ''rights over data'')])]\<rparr>)
     ''Data'' 2)) \<le> 2 \<and>
   search_sections
        [(''1'', [(''title'', ''Scope''), (''content'', ''data about data'')]),
         (''2'', [(''title'', ''Data data''), (''content'', ''personal data'')]),
         (''3'', [(''title'', ''Rights''), (''content'', ''data, data'')])] ''Data''
     = [\<lparr>sm_section = ''2'', sm_title = ''Data data'', sm_relevance = 5\<rparr>,
        \<lparr>sm_section = ''1'', sm_title = ''Scope'', sm_relevance = 2\<rparr>,
        \<lparr>sm_section = ''3'', sm_title = ''Rights'', sm_relevance = 2\<rparr>]"
proof -
  let ?kb = "empty_kb\<lparr>sections :=
        [(''1'', [(''title'', ''Data data''), (''content'', ''personal data'')]),
         (''2'', [(''title'', ''Scope''), (''content'', ''data about data'')]),
         (''3'', [(''title'', ''Rights''), (''content'', ''rights over data'')])]\<rparr>"
  let ?secs = "[(''1'', [(''title'', ''Scope''), (''content'', ''data about data'')]),
         (''2'', [(''title'', ''Data data''), (''content'', ''personal data'')]),
         (''3'', [(''title'', ''Rights''), (''content'', ''data, data'')])]"
  note main = search_ranking [where kb = ?kb and keyword = "''Data''" and limit = 2
      and secs = ?secs]
  from main obtain S where S: "search_content ?kb ''Data'' 2 = slice_to 2 S"
    "mset S = mset (candidates ?kb ''Data'' 2)"
    "sorted_wrt (\<lambda>x y. relevance y \<le> relevance x) S"
    "\<forall>k. filter (\<lambda>x. relevance x = k) S
          = filter (\<lambda>x. relevance x = k) (candidates ?kb ''Data'' 2)"
    by blast
  have "S = sort_key (\<lambda>x. - relevance x) (candidates ?kb ''Data'' 2)"
    by (rule stable_descending_unique [OF S(2) S(3) S(4)])
  also have "\<dots> = [ContentHit ''2'' ''Scope'' 2, ContentHit ''1'' ''Data data'' 1,
                    ContentHit ''3'' ''Rights'' 1]"
    by code_simp
  finally have a: "search_content ?kb ''Data'' 2
                     = [ContentHit ''2'' ''Scope'' 2, ContentHit ''1'' ''Data data'' 1]"
    using S(1) by (simp add: slice_to_def)
  have p: "(0::int) \<le> 2"
    by simp
  have "0 \<le> (2::int) \<longrightarrow> int (length (search_content ?kb ''Data'' 2)) \<le> 2"
    using main by blast
  then have b: "int (length (search_content ?kb ''Data'' 2)) \<le> 2"
    using p by (rule mp)
  have m: "mset (search_sections ?secs ''Data'') = mset (matching_sections ''Data'' ?secs)"
    and o: "sorted_wrt (\<lambda>x y. sm_relevance y \<le> sm_relevance x) (search_sections ?secs ''Data'')"
    and t: "\<forall>k. filter (\<lambda>x. sm_relevance x = k) (search_sections ?secs ''Data'')
         = filter (\<lambda>x. sm_relevance x = k) (matching_sections ''Data'' ?secs)"
    using main by blast+
  have "search_sections ?secs ''Data''
          = sort_key (\<lambda>x. - sm_relevance x) (matching_sections ''Data'' ?secs)"
    by (rule stable_descending_unique [OF m o t])
  also have "\<dots> = [\<lparr>sm_section = ''2'', sm_title = ''Data data'', sm_relevance = 5\<rparr>,
        \<lparr>sm_section = ''1'', sm_title = ''Scope'', sm_relevance = 2\<rparr>,
        \<lparr>sm_section = ''3'', sm_title = ''Rights'', sm_relevance = 2\<rparr>]"
    by code_simp
  finally show ?thesis using a b by simp
qed

end
